theory Spec2Isabelle
  imports Complex_Main
begin

section \<open>Outcomes of a call\<close>

text \<open>
  A Python call either returns or raises. The exceptions that the modelled code can
  raise are collected in one datatype; \<open>SystemExit\<close> is what the builtin \<open>exit()\<close>
  raises to terminate the process. Python floats are modelled as real numbers: rounding,
  overflow and the non-finite values are outside the model, and a division of Python
  numbers by zero is the exception \<open>ZeroDivisionError\<close>.
\<close>

datatype error = ValueError | ZeroDivisionError | IndexError | SystemExit

section \<open>The discrete controller (\<open>algorithms/PID_Controller.py\<close>, class \<open>PIDController\<close>)\<close>

text \<open>
  The instance attributes set by \<open>__init__\<close>. \<open>min_bound\<close> and \<open>max_bound\<close> are
  \<open>self.min\<close> and \<open>self.max\<close>; \<open>use_derivative\<close> records which of the two closures
  \<open>self.formula\<close> is bound to. The attribute \<open>error_formula\<close> is stored by the
  constructor and never read by the tick, so it is left out.
\<close>

record PIDController =
  Kp :: real
  Ki :: real
  Kd :: real
  min_bound :: real
  max_bound :: real
  dt :: real
  previous_error :: real
  integral :: real
  use_derivative :: bool

text \<open>\<open>np.clip(a, a_min, a_max)\<close> is \<open>minimum(a_max, maximum(a, a_min))\<close>.\<close>

definition clip :: "real \<Rightarrow> real \<Rightarrow> real \<Rightarrow> real" where
  "clip a a_min a_max = min a_max (max a a_min)"

text \<open>\<open>__init__\<close>, with \<open>integrator_bounds\<close> given as its two entries.\<close>

definition init_PIDController ::
  "real \<Rightarrow> real \<Rightarrow> real \<Rightarrow> real \<times> real \<Rightarrow> real \<Rightarrow> bool \<Rightarrow> PIDController" where
  "init_PIDController kp ki kd integrator_bounds step derivative_flag =
     \<lparr> Kp = kp, Ki = ki, Kd = kd,
       min_bound = fst integrator_bounds, max_bound = snd integrator_bounds,
       dt = step, previous_error = 0, integral = 0,
       use_derivative = derivative_flag \<rparr>"

text \<open>
  A closure call mutates the instance and then returns a value, returns nothing
  (\<open>None\<close>), or raises; the instance keeps what was written before a raise. So the
  model returns the instance together with the outcome, and a returned value is a
  \<open>real option\<close>.
\<close>

type_synonym tick_outcome = "error + real option"

text \<open>Line 49 and 54: the accumulation shared by both closures.\<close>

definition accumulate :: "PIDController \<Rightarrow> real \<Rightarrow> PIDController" where
  "accumulate self e =
     self\<lparr>integral := integral self + clip (e * dt self) (min_bound self) (max_bound self)\<rparr>"

text \<open>Line 50 and line 51: the two expressions evaluated by \<open>_PID_formula\<close>.\<close>

definition PID_derivative :: "PIDController \<Rightarrow> real \<Rightarrow> real" where
  "PID_derivative self e = (e - previous_error self) / dt self"

definition PID_expression :: "PIDController \<Rightarrow> real \<Rightarrow> real" where
  "PID_expression self e =
     Kp self * e + Ki self * integral self + Kd self * PID_derivative self e"

text \<open>
  \<open>_PID_formula\<close>: the value of line 51 is an expression statement, evaluated and
  dropped; the closure has no \<open>return\<close>, so the call yields \<open>None\<close>.
\<close>

definition PID_formula :: "PIDController \<Rightarrow> real \<Rightarrow> PIDController \<times> tick_outcome" where
  "PID_formula self e =
     (let self1 = accumulate self e in
      if dt self1 = 0 then (self1, Inl ZeroDivisionError)
      else (let derivative = PID_derivative self1 e;
                dropped = PID_expression self1 e
            in (self1, Inr None)))"

definition PI_formula :: "PIDController \<Rightarrow> real \<Rightarrow> PIDController \<times> tick_outcome" where
  "PI_formula self e =
     (let self1 = accumulate self e in
      (self1, Inr (Some (Kp self1 * e + Ki self1 * integral self1))))"

definition formula :: "PIDController \<Rightarrow> real \<Rightarrow> PIDController \<times> tick_outcome" where
  "formula self = (if use_derivative self then PID_formula self else PI_formula self)"

text \<open>\<open>__call__\<close>: a raise in the formula leaves \<open>previous_error\<close> untouched.\<close>

definition call :: "PIDController \<Rightarrow> real \<Rightarrow> PIDController \<times> tick_outcome" where
  "call self e =
     (case formula self e of
        (self1, Inl err) \<Rightarrow> (self1, Inl err)
      | (self1, Inr output) \<Rightarrow> (self1\<lparr>previous_error := e\<rparr>, Inr output))"

subsection \<open>The tick with its effects in program order\<close>

text \<open>
  The value of an expression statement and the order of the writes do not show in
  the instance and the value a tick returns. To state them, the same closures and
  \<open>__call__\<close> are given once more with a log of what each statement does, in
  program order: an assignment to an attribute or to a local variable, with the value
  assigned, or an expression statement, with the value that is evaluated and dropped.
  The instance and the outcome next to the log are those of \<open>call\<close>
  (lemma \<open>call_effects_call\<close> below).
\<close>

datatype effect = Assign string real | Discard real

text \<open>\<open>_PID_formula\<close> (lines 48 to 51).\<close>

definition PID_formula_effects ::
  "PIDController \<Rightarrow> real \<Rightarrow> effect list \<times> PIDController \<times> tick_outcome" where
  "PID_formula_effects self e =
     (let self1 = accumulate self e;
          line49 = [Assign ''integral'' (integral self1)]
      in if dt self1 = 0 then (line49, self1, Inl ZeroDivisionError)
         else (let derivative = (e - previous_error self1) / dt self1;
                   line50 = [Assign ''derivative'' derivative];
                   line51 = [Discard (Kp self1 * e + Ki self1 * integral self1
                                      + Kd self1 * derivative)]
               in (line49 @ line50 @ line51, self1, Inr None)))"

text \<open>\<open>_PI_formula\<close> (lines 53 to 55).\<close>

definition PI_formula_effects ::
  "PIDController \<Rightarrow> real \<Rightarrow> effect list \<times> PIDController \<times> tick_outcome" where
  "PI_formula_effects self e =
     (let self1 = accumulate self e;
          line54 = [Assign ''integral'' (integral self1)]
      in (line54, self1, Inr (Some (Kp self1 * e + Ki self1 * integral self1))))"

definition formula_effects ::
  "PIDController \<Rightarrow> real \<Rightarrow> effect list \<times> PIDController \<times> tick_outcome" where
  "formula_effects self =
     (if use_derivative self then PID_formula_effects self else PI_formula_effects self)"

text \<open>\<open>__call__\<close> (lines 59 to 63): line 60 runs the formula, line 61 writes \<open>previous_error\<close>.\<close>

definition call_effects ::
  "PIDController \<Rightarrow> real \<Rightarrow> effect list \<times> PIDController \<times> tick_outcome" where
  "call_effects self e =
     (case formula_effects self e of
        (line60, self1, Inl err) \<Rightarrow> (line60, self1, Inl err)
      | (line60, self1, Inr output) \<Rightarrow>
          (line60 @ [Assign ''previous_error'' e], self1\<lparr>previous_error := e\<rparr>, Inr output))"

section \<open>The plant simulator (\<open>environments/CPAP_env.py\<close>)\<close>

subsection \<open>Lung and ventilator parameters\<close>

text \<open>
  Class \<open>Lung\<close>: \<open>conv_r_aw\<close> is the attribute \<open>_r_aw\<close>, the airway resistance
  converted to [cmH2O / ml / s].
\<close>

record Lung =
  r_aw :: real
  conv_r_aw :: real
  c_rs :: real

definition init_Lung :: "real \<Rightarrow> real \<Rightarrow> Lung" where
  "init_Lung r c = \<lparr> r_aw = r, conv_r_aw = r / 1000, c_rs = c \<rparr>"

text \<open>
  Class \<open>Ventilator\<close>: \<open>conv_rr\<close> is the attribute \<open>_rr\<close> and \<open>f_i\<close> is \<open>_f_i\<close>.
  The constructor divides twice: \<open>1 / self._rr\<close> (line 55) and
  \<open>self.v_t / self.t_i\<close> (line 61). It contains no other check.
\<close>

record Ventilator =
  v_t :: real
  peep :: real
  rr :: real
  conv_rr :: real
  t_i :: real
  t_ip :: real
  t_c :: real
  t_e :: real
  f_i :: real

definition init_Ventilator :: "real \<Rightarrow> real \<Rightarrow> real \<Rightarrow> real \<Rightarrow> real \<Rightarrow> error + Ventilator" where
  "init_Ventilator vt pe r ti tip =
     (let rr1 = r / 60 in
      if rr1 = 0 then Inl ZeroDivisionError
      else (let tc = 1 / rr1;
                te = tc - ti - tip
            in if ti = 0 then Inl ZeroDivisionError
               else Inr \<lparr> v_t = vt, peep = pe, rr = r, conv_rr = rr1, t_i = ti, t_ip = tip,
                          t_c = tc, t_e = te, f_i = vt / ti \<rparr>))"

subsection \<open>The phase state\<close>

datatype phase = exhale | inhale | pause

text \<open>
  The four simulation attributes of \<open>CpapEnv\<close> (lines 79 to 82); \<open>sim_i\<close> is the
  attribute \<open>i\<close>. \<open>initial_state\<close> holds their class-level defaults.
\<close>

record SimulationState =
  sim_i :: int
  phase_counter :: int
  phase :: phase
  start_phase_time :: real

definition initial_state :: SimulationState where
  "initial_state = \<lparr> sim_i = 0, phase_counter = 1, phase = exhale, start_phase_time = 0 \<rparr>"

text \<open>The keyword arguments of \<open>simulation_model\<close>, in the order of its signature.\<close>

record model_kwargs =
  kw_rp :: real
  kw_c :: real
  kw_rl :: real
  kw_tb :: real
  kw_kb :: real
  kw_r_aw :: real
  kw_c_rs :: real
  kw_v_t :: real
  kw_peep :: real
  kw_rr :: real
  kw_t_i :: real
  kw_t_ip :: real
  kw_dt :: real
  kw_f_s :: real

subsection \<open>The phase equations\<close>

text \<open>
  \<open>_expiratory_flow\<close> (lines 231 to 234). The left operand
  \<open>(peep - last_pressure) / _r_aw\<close> is evaluated before the argument of \<open>np.exp\<close>.
\<close>

definition expiratory_flow :: "Lung \<Rightarrow> Ventilator \<Rightarrow> real \<Rightarrow> real \<Rightarrow> real \<Rightarrow> error + real" where
  "expiratory_flow lung ventilator last_pressure start_time current_time =
     (let t = current_time - start_time;
          rc = conv_r_aw lung * c_rs lung
      in if conv_r_aw lung = 0 then Inl ZeroDivisionError
         else if rc = 0 then Inl ZeroDivisionError
         else Inr ((peep ventilator - last_pressure) / conv_r_aw lung * exp (- t / rc)))"

text \<open>
  The end of each branch (lines 182 to 185, 199 to 202, 210 to 213): the counter is
  incremented and compared with \<open>duration * f_s\<close>; when the comparison holds the phase
  is replaced and the counter is set to 1.
\<close>

definition advance_counter :: "SimulationState \<Rightarrow> real \<Rightarrow> phase \<Rightarrow> SimulationState" where
  "advance_counter self bound next_phase =
     (let self1 = self\<lparr>phase_counter := phase_counter self + 1\<rparr>
      in if real_of_int (phase_counter self1) \<ge> bound
         then self1\<lparr>phase := next_phase, phase_counter := 1\<rparr>
         else self1)"

type_synonym phase_outcome = "error + real \<times> real \<times> real"

text \<open>Lines 165 to 185. The result is the unconverted flow, the volume and the pressure.\<close>

definition exhale_branch ::
  "SimulationState \<Rightarrow> Lung \<Rightarrow> Ventilator \<Rightarrow> model_kwargs \<Rightarrow> real \<Rightarrow> real \<Rightarrow>
   SimulationState \<times> phase_outcome" where
  "exhale_branch self lung ventilator kw current_volume current_pressure =
     (let current_time = real_of_int (sim_i self) * kw_dt kw;
          self1 = (if phase_counter self = 0
                   then self\<lparr>start_phase_time := current_time\<rparr> else self)
      in case expiratory_flow lung ventilator current_pressure
                (start_phase_time self1) current_time of
           Inl err \<Rightarrow> (self1, Inl err)
         | Inr flow \<Rightarrow>
             (let volume = current_volume + flow * kw_dt kw
              in if c_rs lung = 0 then (self1, Inl ZeroDivisionError)
                 else (let pressure = flow * conv_r_aw lung + volume / c_rs lung
                                       + peep ventilator
                       in (advance_counter self1 (t_e ventilator * kw_f_s kw) inhale,
                           Inr (flow, volume, pressure)))))"

text \<open>Lines 188 to 202.\<close>

definition inhale_branch ::
  "SimulationState \<Rightarrow> Lung \<Rightarrow> Ventilator \<Rightarrow> model_kwargs \<Rightarrow> real \<Rightarrow>
   SimulationState \<times> phase_outcome" where
  "inhale_branch self lung ventilator kw current_volume =
     (let flow = f_i ventilator;
          volume = (if sim_i self > 0 then current_volume + flow * kw_dt kw else 0)
      in if c_rs lung = 0 then (self, Inl ZeroDivisionError)
         else (let pressure = flow * conv_r_aw lung + volume / c_rs lung + peep ventilator
               in (advance_counter self (t_i ventilator * kw_f_s kw) pause,
                   Inr (flow, volume, pressure))))"

text \<open>Lines 204 to 213.\<close>

definition pause_branch ::
  "SimulationState \<Rightarrow> Lung \<Rightarrow> Ventilator \<Rightarrow> model_kwargs \<Rightarrow> real \<Rightarrow>
   SimulationState \<times> phase_outcome" where
  "pause_branch self lung ventilator kw current_volume =
     (let flow = 0;
          volume = current_volume + flow * kw_dt kw
      in if c_rs lung = 0 then (self, Inl ZeroDivisionError)
         else (let pressure = conv_r_aw lung * flow + volume / c_rs lung + peep ventilator
               in (advance_counter self (t_ip ventilator * kw_f_s kw) exhale,
                   Inr (flow, volume, pressure))))"

text \<open>The \<open>if/elif/elif\<close> chain on \<open>self.phase\<close> (lines 165, 188, 204).\<close>

definition phase_equations ::
  "SimulationState \<Rightarrow> Lung \<Rightarrow> Ventilator \<Rightarrow> model_kwargs \<Rightarrow> real \<Rightarrow> real \<Rightarrow>
   SimulationState \<times> phase_outcome" where
  "phase_equations self lung ventilator kw current_volume current_pressure =
     (case phase self of
        exhale \<Rightarrow> exhale_branch self lung ventilator kw current_volume current_pressure
      | inhale \<Rightarrow> inhale_branch self lung ventilator kw current_volume
      | pause \<Rightarrow> pause_branch self lung ventilator kw current_volume)"

subsection \<open>One tick\<close>

text \<open>
  The returned dictionary, in insertion order. \<open>simulation_model\<close> takes the action
  \<open>u_t\<close> and the incoming \<open>current_flow\<close> and reads neither: the flow is overwritten in
  every branch. A raise leaves the instance as it was written so far, so the
  instance is returned next to the outcome.
\<close>

type_synonym observation = "(string \<times> real) list"

definition simulation_model ::
  "SimulationState \<Rightarrow> real \<Rightarrow> real \<Rightarrow> real \<Rightarrow> real \<Rightarrow> model_kwargs \<Rightarrow>
   SimulationState \<times> (error + observation)" where
  "simulation_model self u_t current_flow current_volume current_pressure kw =
     (let lung = init_Lung (kw_r_aw kw) (kw_c_rs kw)
      in case init_Ventilator (kw_v_t kw) (kw_peep kw) (kw_rr kw) (kw_t_i kw) (kw_t_ip kw) of
           Inl err \<Rightarrow> (self, Inl err)
         | Inr ventilator \<Rightarrow>
             (case phase_equations self lung ventilator kw current_volume current_pressure of
                (self1, Inl err) \<Rightarrow> (self1, Inl err)
              | (self1, Inr (flow, volume, pressure)) \<Rightarrow>
                  (let flow_out = flow * 60 / 1000;
                       self2 = self1\<lparr>sim_i := sim_i self1 + 1\<rparr>
                   in (self2, Inr [(''x1'', flow_out), (''x2'', volume), (''x3'', pressure)]))))"

text \<open>
  Successive calls of \<open>simulation_model\<close> on one instance with the same keyword
  arguments; the caller supplies the action and the x vector \<open>(flow, volume, pressure)\<close>
  of each call. The sequence stops at the first raise.
\<close>

fun run_ticks ::
  "model_kwargs \<Rightarrow> SimulationState \<Rightarrow> (real \<times> real \<times> real \<times> real) list \<Rightarrow>
   SimulationState \<times> (error + observation list)" where
  "run_ticks kw self [] = (self, Inr [])"
| "run_ticks kw self ((u_t, x1, x2, x3) # rest) =
     (case simulation_model self u_t x1 x2 x3 kw of
        (self1, Inl err) \<Rightarrow> (self1, Inl err)
      | (self1, Inr obs) \<Rightarrow>
          (case run_ticks kw self1 rest of
             (self2, Inl err) \<Rightarrow> (self2, Inl err)
           | (self2, Inr observations) \<Rightarrow> (self2, Inr (obs # observations))))"

subsection \<open>The simulator over a floating-point arithmetic\<close>

text \<open>
  The definitions above compute in the real numbers. The source computes in doubles,
  and the phase transitions compare the counter with a rounded product: in doubles
  \<open>(1 / (18 / 60) - 1 - 1) * 30\<close> is not 40. So the simulator is given once more over
  an arbitrary arithmetic: every arithmetic operation of the source is the
  corresponding operation of a record \<open>float_ops\<close>, whose results are (finite) reals;
  the comparison of the integer counter with a float is exact, as in Python, and so is
  the unary minus. What is proved for every \<open>float_ops\<close> holds for the doubles.
  \<open>exact_ops\<close> is the arithmetic of the reals, for which the definitions below are
  the definitions above (lemma \<open>simulation_model_fl_exact\<close>).
\<close>

record float_ops =
  fl_add :: "real \<Rightarrow> real \<Rightarrow> real"
  fl_sub :: "real \<Rightarrow> real \<Rightarrow> real"
  fl_mul :: "real \<Rightarrow> real \<Rightarrow> real"
  fl_div :: "real \<Rightarrow> real \<Rightarrow> real"
  fl_exp :: "real \<Rightarrow> real"

definition exact_ops :: float_ops where
  "exact_ops = \<lparr> fl_add = (+), fl_sub = (-), fl_mul = (*), fl_div = (/), fl_exp = exp \<rparr>"

text \<open>Class \<open>Lung\<close> (lines 18 to 29).\<close>

definition init_Lung_fl :: "float_ops \<Rightarrow> real \<Rightarrow> real \<Rightarrow> Lung" where
  "init_Lung_fl ops r c = \<lparr> r_aw = r, conv_r_aw = fl_div ops r 1000, c_rs = c \<rparr>"

text \<open>Class \<open>Ventilator\<close> (lines 32 to 61).\<close>

definition init_Ventilator_fl ::
  "float_ops \<Rightarrow> real \<Rightarrow> real \<Rightarrow> real \<Rightarrow> real \<Rightarrow> real \<Rightarrow> error + Ventilator" where
  "init_Ventilator_fl ops vt pe r ti tip =
     (let rr1 = fl_div ops r 60 in
      if rr1 = 0 then Inl ZeroDivisionError
      else (let tc = fl_div ops 1 rr1;
                te = fl_sub ops (fl_sub ops tc ti) tip
            in if ti = 0 then Inl ZeroDivisionError
               else Inr \<lparr> v_t = vt, peep = pe, rr = r, conv_rr = rr1, t_i = ti, t_ip = tip,
                          t_c = tc, t_e = te, f_i = fl_div ops vt ti \<rparr>))"

text \<open>\<open>_expiratory_flow\<close> (lines 231 to 234).\<close>

definition expiratory_flow_fl ::
  "float_ops \<Rightarrow> Lung \<Rightarrow> Ventilator \<Rightarrow> real \<Rightarrow> real \<Rightarrow> real \<Rightarrow> error + real" where
  "expiratory_flow_fl ops lung ventilator last_pressure start_time current_time =
     (let t = fl_sub ops current_time start_time;
          rc = fl_mul ops (conv_r_aw lung) (c_rs lung)
      in if conv_r_aw lung = 0 then Inl ZeroDivisionError
         else if rc = 0 then Inl ZeroDivisionError
         else Inr (fl_mul ops
                     (fl_div ops (fl_sub ops (peep ventilator) last_pressure) (conv_r_aw lung))
                     (fl_exp ops (fl_div ops (- t) rc))))"

text \<open>Lines 165 to 185.\<close>

definition exhale_branch_fl ::
  "float_ops \<Rightarrow> SimulationState \<Rightarrow> Lung \<Rightarrow> Ventilator \<Rightarrow> model_kwargs \<Rightarrow> real \<Rightarrow> real \<Rightarrow>
   SimulationState \<times> phase_outcome" where
  "exhale_branch_fl ops self lung ventilator kw current_volume current_pressure =
     (let current_time = fl_mul ops (real_of_int (sim_i self)) (kw_dt kw);
          self1 = (if phase_counter self = 0
                   then self\<lparr>start_phase_time := current_time\<rparr> else self)
      in case expiratory_flow_fl ops lung ventilator current_pressure
                (start_phase_time self1) current_time of
           Inl err \<Rightarrow> (self1, Inl err)
         | Inr flow \<Rightarrow>
             (let volume = fl_add ops current_volume (fl_mul ops flow (kw_dt kw))
              in if c_rs lung = 0 then (self1, Inl ZeroDivisionError)
                 else (let pressure =
                             fl_add ops
                               (fl_add ops (fl_mul ops flow (conv_r_aw lung))
                                  (fl_div ops volume (c_rs lung)))
                               (peep ventilator)
                       in (advance_counter self1
                             (fl_mul ops (t_e ventilator) (kw_f_s kw)) inhale,
                           Inr (flow, volume, pressure)))))"

text \<open>Lines 188 to 202.\<close>

definition inhale_branch_fl ::
  "float_ops \<Rightarrow> SimulationState \<Rightarrow> Lung \<Rightarrow> Ventilator \<Rightarrow> model_kwargs \<Rightarrow> real \<Rightarrow>
   SimulationState \<times> phase_outcome" where
  "inhale_branch_fl ops self lung ventilator kw current_volume =
     (let flow = f_i ventilator;
          volume = (if sim_i self > 0
                    then fl_add ops current_volume (fl_mul ops flow (kw_dt kw)) else 0)
      in if c_rs lung = 0 then (self, Inl ZeroDivisionError)
         else (let pressure =
                     fl_add ops
                       (fl_add ops (fl_mul ops flow (conv_r_aw lung))
                          (fl_div ops volume (c_rs lung)))
                       (peep ventilator)
               in (advance_counter self (fl_mul ops (t_i ventilator) (kw_f_s kw)) pause,
                   Inr (flow, volume, pressure))))"

text \<open>Lines 204 to 213.\<close>

definition pause_branch_fl ::
  "float_ops \<Rightarrow> SimulationState \<Rightarrow> Lung \<Rightarrow> Ventilator \<Rightarrow> model_kwargs \<Rightarrow> real \<Rightarrow>
   SimulationState \<times> phase_outcome" where
  "pause_branch_fl ops self lung ventilator kw current_volume =
     (let flow = 0;
          volume = fl_add ops current_volume (fl_mul ops flow (kw_dt kw))
      in if c_rs lung = 0 then (self, Inl ZeroDivisionError)
         else (let pressure =
                     fl_add ops
                       (fl_add ops (fl_mul ops (conv_r_aw lung) flow)
                          (fl_div ops volume (c_rs lung)))
                       (peep ventilator)
               in (advance_counter self (fl_mul ops (t_ip ventilator) (kw_f_s kw)) exhale,
                   Inr (flow, volume, pressure))))"

definition phase_equations_fl ::
  "float_ops \<Rightarrow> SimulationState \<Rightarrow> Lung \<Rightarrow> Ventilator \<Rightarrow> model_kwargs \<Rightarrow> real \<Rightarrow> real \<Rightarrow>
   SimulationState \<times> phase_outcome" where
  "phase_equations_fl ops self lung ventilator kw current_volume current_pressure =
     (case phase self of
        exhale \<Rightarrow> exhale_branch_fl ops self lung ventilator kw current_volume current_pressure
      | inhale \<Rightarrow> inhale_branch_fl ops self lung ventilator kw current_volume
      | pause \<Rightarrow> pause_branch_fl ops self lung ventilator kw current_volume)"

text \<open>\<open>simulation_model\<close> (lines 149 to 227).\<close>

definition simulation_model_fl ::
  "float_ops \<Rightarrow> SimulationState \<Rightarrow> real \<Rightarrow> real \<Rightarrow> real \<Rightarrow> real \<Rightarrow> model_kwargs \<Rightarrow>
   SimulationState \<times> (error + observation)" where
  "simulation_model_fl ops self u_t current_flow current_volume current_pressure kw =
     (let lung = init_Lung_fl ops (kw_r_aw kw) (kw_c_rs kw)
      in case init_Ventilator_fl ops (kw_v_t kw) (kw_peep kw) (kw_rr kw) (kw_t_i kw)
                (kw_t_ip kw) of
           Inl err \<Rightarrow> (self, Inl err)
         | Inr ventilator \<Rightarrow>
             (case phase_equations_fl ops self lung ventilator kw current_volume
                     current_pressure of
                (self1, Inl err) \<Rightarrow> (self1, Inl err)
              | (self1, Inr (flow, volume, pressure)) \<Rightarrow>
                  (let flow_out = fl_div ops (fl_mul ops flow 60) 1000;
                       self2 = self1\<lparr>sim_i := sim_i self1 + 1\<rparr>
                   in (self2, Inr [(''x1'', flow_out), (''x2'', volume), (''x3'', pressure)]))))"

text \<open>Successive calls on one instance, as \<open>run_ticks\<close>.\<close>

fun run_ticks_fl ::
  "float_ops \<Rightarrow> model_kwargs \<Rightarrow> SimulationState \<Rightarrow> (real \<times> real \<times> real \<times> real) list \<Rightarrow>
   SimulationState \<times> (error + observation list)" where
  "run_ticks_fl ops kw self [] = (self, Inr [])"
| "run_ticks_fl ops kw self ((u_t, x1, x2, x3) # rest) =
     (case simulation_model_fl ops self u_t x1 x2 x3 kw of
        (self1, Inl err) \<Rightarrow> (self1, Inl err)
      | (self1, Inr obs) \<Rightarrow>
          (case run_ticks_fl ops kw self1 rest of
             (self2, Inl err) \<Rightarrow> (self2, Inl err)
           | (self2, Inr observations) \<Rightarrow> (self2, Inr (obs # observations))))"

text \<open>
  A concrete set of keyword arguments used to run the model: the lung and ventilator
  values of \<open>create_cpap_environment\<close>, sampled at 1 Hz so that a breathing cycle
  takes four ticks.
\<close>

abbreviation kwargs_1Hz :: model_kwargs where
  "kwargs_1Hz \<equiv>
     \<lparr> kw_rp = 1 / 100, kw_c = 50, kw_rl = 291 / 100, kw_tb = 1 / 100, kw_kb = 1 / 2,
       kw_r_aw = 3, kw_c_rs = 60,
       kw_v_t = 350, kw_peep = 5, kw_rr = 15, kw_t_i = 1, kw_t_ip = 1 / 4,
       kw_dt = 1, kw_f_s = 1 \<rparr>"

section \<open>The tuners (\<open>algorithms/PID_Controller.py\<close>)\<close>

subsection \<open>numpy scalars\<close>

text \<open>
  The reaction-curve analysis computes on elements of numpy arrays. A division of
  \<open>np.float64\<close> values by zero does not raise: it yields \<open>inf\<close>, \<open>-inf\<close> or \<open>nan\<close>
  (with a warning) and the computation goes on. A \<open>float64\<close> is therefore a finite
  real or \<open>None\<close>, which stands for any of the three non-finite values. Sums,
  differences and products with a non-finite operand are non-finite. A quotient with a
  non-finite operand is given as non-finite as well; that is what numpy yields but for
  a finite value divided by an infinite one, and the tuner never divides a finite value
  by a non-finite one (lemma \<open>reaction_curve_finite_together\<close> below).
\<close>

type_synonym float64 = "real option"

definition f64_add :: "float64 \<Rightarrow> float64 \<Rightarrow> float64" where
  "f64_add a b = (case (a, b) of (Some x, Some y) \<Rightarrow> Some (x + y) | _ \<Rightarrow> None)"

definition f64_sub :: "float64 \<Rightarrow> float64 \<Rightarrow> float64" where
  "f64_sub a b = (case (a, b) of (Some x, Some y) \<Rightarrow> Some (x - y) | _ \<Rightarrow> None)"

definition f64_mul :: "float64 \<Rightarrow> float64 \<Rightarrow> float64" where
  "f64_mul a b = (case (a, b) of (Some x, Some y) \<Rightarrow> Some (x * y) | _ \<Rightarrow> None)"

definition f64_div :: "float64 \<Rightarrow> float64 \<Rightarrow> float64" where
  "f64_div a b =
     (case (a, b) of
        (Some x, Some y) \<Rightarrow> if y = 0 then None else Some (x / y)
      | _ \<Rightarrow> None)"

subsection \<open>The libraries\<close>

text \<open>
  The tuners call the packages \<open>control\<close>, \<open>numpy\<close> and \<open>scipy\<close>, which are not part
  of the repository. What they return is a parameter of the model, for a plant of any
  type \<open>'p\<close>:
  \<^item> \<open>step_response\<close>: the arrays \<open>time, plant_y\<close> of \<open>ct.step_response(plant)\<close>;
  \<^item> \<open>step_info_Peak\<close>: the entry \<open>"Peak"\<close> of \<open>ct.step_info(plant)\<close>;
  \<^item> \<open>np_gradient\<close>: \<open>np.gradient(f, x)\<close>;
  \<^item> \<open>closed_loop_step\<close>: for a numerator and a denominator, the step response over
    \<open>np.linspace(0, 10, 1000)\<close> of the unity feedback loop around
    \<open>TransferFunction(num, den) * plant\<close> (lines 196 to 198);
  \<^item> \<open>minimize\<close>: the field \<open>x\<close> of the result of \<open>scipy.optimize.minimize\<close>, or the
    exception it raises;
  \<^item> \<open>forced_response_y01\<close>: the entry \<open>y[0, 1]\<close> of
    \<open>ct.forced_response(TransferFunction(num, den), T, U)\<close>.
\<close>

record 'p libraries =
  step_response :: "'p \<Rightarrow> real list \<times> real list"
  step_info_Peak :: "'p \<Rightarrow> real"
  np_gradient :: "real list \<Rightarrow> real list \<Rightarrow> real list"
  closed_loop_step :: "'p \<Rightarrow> float64 list \<Rightarrow> real list \<Rightarrow> real list"
  minimize :: "(float64 \<times> float64 \<times> float64 \<Rightarrow> real) \<Rightarrow> float64 \<times> float64 \<times> float64
               \<Rightarrow> string \<Rightarrow> error + float64 \<times> float64 \<times> float64"
  forced_response_y01 :: "float64 list \<Rightarrow> real list \<Rightarrow> real list \<Rightarrow> real list \<Rightarrow> real"

text \<open>\<open>np.sign\<close>, \<open>np.diff\<close>, and the index array \<open>np.where(a)[0]\<close> of the non-zero entries.\<close>

definition np_sign :: "real list \<Rightarrow> real list" where
  "np_sign a = map sgn a"

definition np_diff :: "real list \<Rightarrow> real list" where
  "np_diff a = map (\<lambda>(x, y). y - x) (zip a (tl a))"

definition np_where :: "real list \<Rightarrow> nat list" where
  "np_where a = map fst (filter (\<lambda>(k, x). x \<noteq> 0) (enumerate 0 a))"

text \<open>Indexing with a non-negative index: out of range is \<open>IndexError\<close>.\<close>

definition item :: "'a list \<Rightarrow> nat \<Rightarrow> error + 'a" where
  "item a k = (if k < length a then Inr (a ! k) else Inl IndexError)"

subsection \<open>The Ziegler-Nichols tuner\<close>

text \<open>
  Lines 77 to 99 of \<open>train_pid_with_ZN_method\<close>: the inflection point of the step
  response, the tangent there, and its intersections with \<open>y = 0\<close> and \<open>y = h\<close>. The
  result is the pair \<open>(L, T)\<close>.
\<close>

definition reaction_curve :: "'p libraries \<Rightarrow> 'p \<Rightarrow> error + float64 \<times> float64" where
  "reaction_curve lib plant =
     (let (time, plant_y) = step_response lib plant;
          h = step_info_Peak lib plant;
          dy_dt = np_gradient lib plant_y time;
          d2y_dt2 = np_gradient lib dy_dt time
      in case np_where (np_diff (np_sign d2y_dt2)) of
           [] \<Rightarrow> Inl IndexError
         | inflexion_idx # _ \<Rightarrow>
             (case item time inflexion_idx of
                Inl err \<Rightarrow> Inl err
              | Inr t_inflexion \<Rightarrow>
                  (case item plant_y inflexion_idx of
                     Inl err \<Rightarrow> Inl err
                   | Inr y_inflexion \<Rightarrow>
                       (case item dy_dt inflexion_idx of
                          Inl err \<Rightarrow> Inl err
                        | Inr slope \<Rightarrow>
                            (let t_intersect_y0 =
                                   f64_sub (Some t_inflexion)
                                     (f64_div (Some y_inflexion) (Some slope));
                                 t_intersect_yh =
                                   f64_add (Some t_inflexion)
                                     (f64_div (Some (h - y_inflexion)) (Some slope));
                                 L = t_intersect_y0;
                                 T = f64_sub t_intersect_yh t_intersect_y0
                             in Inr (L, T))))))"

text \<open>Lines 101 to 114: the gain table.\<close>

definition zn_gains :: "string \<Rightarrow> float64 \<Rightarrow> float64 \<Rightarrow> error + float64 \<times> float64 \<times> float64" where
  "zn_gains pid_type L T =
     (if pid_type = ''P'' then
        Inr (f64_div T L, Some 0, Some 0)
      else if pid_type = ''PI'' then
        Inr (f64_mul (Some (9 / 10)) (f64_div T L), f64_div L (Some (3 / 10)), Some 0)
      else if pid_type = ''PID'' then
        Inr (f64_mul (Some (12 / 10)) (f64_div T L), f64_mul (Some 2) L,
             f64_mul (Some (1 / 2)) L)
      else Inl ValueError)"

text \<open>
  \<open>train_pid_with_ZN_method\<close>. When \<open>plot\<close> holds, lines 116 to 150 draw the figure
  (calls into \<open>matplotlib\<close>, with no effect on \<open>kp, ki, kd\<close>) and then call \<open>exit()\<close>,
  which raises \<open>SystemExit\<close>; line 167 is reached only when \<open>plot\<close> is false.
\<close>

definition train_pid_with_ZN_method ::
  "'p libraries \<Rightarrow> 'p \<Rightarrow> string \<Rightarrow> bool \<Rightarrow> error + float64 \<times> float64 \<times> float64" where
  "train_pid_with_ZN_method lib plant pid_type plot =
     (case reaction_curve lib plant of
        Inl err \<Rightarrow> Inl err
      | Inr (L, T) \<Rightarrow>
          (case zn_gains pid_type L T of
             Inl err \<Rightarrow> Inl err
           | Inr (kp, ki, kd) \<Rightarrow>
               if plot then Inl SystemExit else Inr (kp, ki, kd)))"

subsection \<open>The tuner entry point\<close>

text \<open>The objective \<open>optimize_pid\<close> (lines 194 to 201).\<close>

definition optimize_pid :: "'p libraries \<Rightarrow> 'p \<Rightarrow> float64 \<times> float64 \<times> float64 \<Rightarrow> real" where
  "optimize_pid lib plant params =
     (case params of
        (kp, ki, kd) \<Rightarrow>
          (let y = closed_loop_step lib plant [kp, ki, kd] [1, 1 / 1000, 1 / 1000]
           in sum_list (map (\<lambda>v. \<bar>1 - v\<bar>) y)))"

text \<open>
  \<open>train_pid_controller\<close>. The call on line 192 passes \<open>plant\<close> and \<open>pid_type\<close> only, so
  \<open>plot\<close> takes its default \<open>True\<close>. The branch of line 194 does not mention
  \<open>pid_type\<close>. The result is the closure \<open>pid_controller\<close> and the dictionary of gains.
\<close>

definition train_pid_controller ::
  "'p libraries \<Rightarrow> 'p \<Rightarrow> string \<Rightarrow> string \<Rightarrow> float64 \<Rightarrow> float64 \<Rightarrow> float64 \<Rightarrow>
   error + (real \<Rightarrow> real) \<times> (string \<times> float64) list" where
  "train_pid_controller lib plant pid_training_method pid_type initial_kp initial_ki initial_kd =
     (case (if pid_training_method = ''ZN''
            then train_pid_with_ZN_method lib plant pid_type True
            else minimize lib (optimize_pid lib plant) (initial_kp, initial_ki, initial_kd)
                   pid_training_method) of
        Inl err \<Rightarrow> Inl err
      | Inr (optimized_Kp, optimized_Ki, optimized_Kd) \<Rightarrow>
          (let num = [optimized_Kd, optimized_Kp, optimized_Ki];
               den = [1, 1 / 1000, 1 / 1000];
               pid_controller = (\<lambda>e. forced_response_y01 lib num den [0, 1 / 1000000] [0, e])
           in Inr (pid_controller,
                   [(''optimized_Kp'', optimized_Kp), (''optimized_Ki'', optimized_Ki),
                    (''optimized_Kd'', optimized_Kd)])))"

text \<open>
  What the libraries return for one sample plant, used to run the tuners: a step
  response sampled at five instants with peak 8, the values of \<open>np.gradient\<close> on it,
  a closed loop that tracks the step exactly, and a minimiser that stops at its
  starting point.
\<close>

abbreviation sample_libraries :: "unit libraries" where
  "sample_libraries \<equiv>
     \<lparr> step_response = (\<lambda>plant. ([0, 1, 2, 3, 4], [0, 1, 4, 7, 8])),
       step_info_Peak = (\<lambda>plant. 8),
       np_gradient = (\<lambda>f x. if f = [0, 1, 4, 7, 8] then [1, 2, 3, 2, 1]
                             else if f = [1, 2, 3, 2, 1] then [1, 1, 0, - 1, - 1]
                             else []),
       closed_loop_step = (\<lambda>plant num den. [1, 1, 1]),
       minimize = (\<lambda>objective x0 method_name. Inr x0),
       forced_response_y01 = (\<lambda>num den ts us. 0) \<rparr>"

section \<open>Properties of the controller tick\<close>

lemma clip_bounds: "a_min \<le> a_max \<Longrightarrow> a_min \<le> clip a a_min a_max \<and> clip a a_min a_max \<le> a_max"
  by (simp add: clip_def)

lemma call_PI:
  "\<not> use_derivative self \<Longrightarrow>
   call self e =
     (self\<lparr>integral := integral self + clip (e * dt self) (min_bound self) (max_bound self),
           previous_error := e\<rparr>,
      Inr (Some (Kp self * e
                 + Ki self * (integral self + clip (e * dt self) (min_bound self) (max_bound self)))))"
  by (simp add: call_def formula_def PI_formula_def accumulate_def Let_def)

lemma call_PID:
  "use_derivative self \<Longrightarrow> dt self \<noteq> 0 \<Longrightarrow>
   call self e = ((accumulate self e)\<lparr>previous_error := e\<rparr>, Inr None)"
  by (simp add: call_def formula_def PID_formula_def accumulate_def Let_def)

text \<open>
  C1. In PI mode (\<open>use_derivative = False\<close>) a tick, for every error value, adds
  \<open>clip (e * dt) min max\<close> to the stored integral and returns
  \<open>Kp * e + Ki * (the updated integral)\<close>. The clamp bounds the increment of each
  step (it lies in \<open>[min, max]\<close> whenever \<open>min \<le> max\<close>), not the accumulated sum:
  the second conjunct exhibits a controller whose integral leaves \<open>[min, max]\<close>
  after two ticks.
\<close>

theorem C1_PI_tick:
  "(\<forall>self e. \<not> use_derivative self \<longrightarrow>
      (\<exists>self1. call self e = (self1, Inr (Some (Kp self * e + Ki self * integral self1)))
         \<and> integral self1 = integral self + clip (e * dt self) (min_bound self) (max_bound self)
         \<and> self1 = self\<lparr>integral := integral self1, previous_error := e\<rparr>
         \<and> (min_bound self \<le> max_bound self \<longrightarrow>
              min_bound self \<le> integral self1 - integral self
              \<and> integral self1 - integral self \<le> max_bound self)))
   \<and> (\<exists>self e. \<not> use_derivative self \<and> min_bound self \<le> max_bound self
         \<and> integral self = 0
         \<and> max_bound self < integral (fst (call (fst (call self e)) e)))"
proof (intro conjI allI impI)
  fix self :: PIDController and e :: real
  assume pi: "\<not> use_derivative self"
  let ?inc = "clip (e * dt self) (min_bound self) (max_bound self)"
  let ?self1 = "self\<lparr>integral := integral self + ?inc, previous_error := e\<rparr>"
  have "call self e = (?self1, Inr (Some (Kp self * e + Ki self * integral ?self1)))"
    using call_PI [OF pi, of e] by simp
  moreover have "integral ?self1 = integral self + ?inc"
    by simp
  moreover have "?self1 = self\<lparr>integral := integral ?self1, previous_error := e\<rparr>"
    by simp
  moreover have "min_bound self \<le> max_bound self \<longrightarrow>
      min_bound self \<le> integral ?self1 - integral self
      \<and> integral ?self1 - integral self \<le> max_bound self"
    using clip_bounds [of "min_bound self" "max_bound self" "e * dt self"] by simp
  ultimately show "\<exists>self1. call self e = (self1, Inr (Some (Kp self * e + Ki self * integral self1)))
         \<and> integral self1 = integral self + clip (e * dt self) (min_bound self) (max_bound self)
         \<and> self1 = self\<lparr>integral := integral self1, previous_error := e\<rparr>
         \<and> (min_bound self \<le> max_bound self \<longrightarrow>
              min_bound self \<le> integral self1 - integral self
              \<and> integral self1 - integral self \<le> max_bound self)"
    by blast
next
  let ?c = "init_PIDController 2 3 0 (-1, 1) 1 False"
  have "\<not> use_derivative ?c \<and> min_bound ?c \<le> max_bound ?c \<and> integral ?c = 0
        \<and> max_bound ?c < integral (fst (call (fst (call ?c 5)) 5))"
    by (simp add: init_PIDController_def call_def formula_def PI_formula_def
        accumulate_def clip_def Let_def)
  then show "\<exists>self e. \<not> use_derivative self \<and> min_bound self \<le> max_bound self
         \<and> integral self = 0
         \<and> max_bound self < integral (fst (call (fst (call self e)) e))"
    by blast
qed

theorem C1_PI_tick_witness:
  "\<not> use_derivative (init_PIDController 2 3 0 (-1, 1) 1 False)
   \<and> call (init_PIDController 2 3 0 (-1, 1) 1 False) 5
       = ((init_PIDController 2 3 0 (-1, 1) 1 False)\<lparr>integral := 1, previous_error := 5\<rparr>,
          Inr (Some 13))
   \<and> min_bound (init_PIDController 2 3 0 (-1, 1) 1 False)
       \<le> max_bound (init_PIDController 2 3 0 (-1, 1) 1 False)
   \<and> min_bound (init_PIDController 2 3 0 (-1, 1) 1 False)
       \<le> 1 - integral (init_PIDController 2 3 0 (-1, 1) 1 False)
   \<and> 1 - integral (init_PIDController 2 3 0 (-1, 1) 1 False)
       \<le> max_bound (init_PIDController 2 3 0 (-1, 1) 1 False)"
proof -
  let ?c = "init_PIDController 2 3 0 (-1, 1) 1 False"
  have pi: "\<not> use_derivative ?c"
    by (simp add: init_PIDController_def)
  have le: "min_bound ?c \<le> max_bound ?c"
    by (simp add: init_PIDController_def)
  have inc: "clip (5 * dt ?c) (min_bound ?c) (max_bound ?c) = 1"
    by (simp add: init_PIDController_def clip_def)
  from C1_PI_tick have
    "\<exists>self1. call ?c 5 = (self1, Inr (Some (Kp ?c * 5 + Ki ?c * integral self1)))
         \<and> integral self1 = integral ?c + clip (5 * dt ?c) (min_bound ?c) (max_bound ?c)
         \<and> self1 = ?c\<lparr>integral := integral self1, previous_error := 5\<rparr>
         \<and> (min_bound ?c \<le> max_bound ?c \<longrightarrow>
              min_bound ?c \<le> integral self1 - integral ?c
              \<and> integral self1 - integral ?c \<le> max_bound ?c)"
    using pi by blast
  then obtain self1 where
    c: "call ?c 5 = (self1, Inr (Some (Kp ?c * 5 + Ki ?c * integral self1)))"
    and i: "integral self1 = integral ?c + clip (5 * dt ?c) (min_bound ?c) (max_bound ?c)"
    and s: "self1 = ?c\<lparr>integral := integral self1, previous_error := 5\<rparr>"
    and b: "min_bound ?c \<le> max_bound ?c \<longrightarrow>
              min_bound ?c \<le> integral self1 - integral ?c
              \<and> integral self1 - integral ?c \<le> max_bound ?c"
    by blast
  have i1: "integral self1 = 1"
    using i inc by (simp add: init_PIDController_def)
  have r: "call ?c 5 = (?c\<lparr>integral := 1, previous_error := 5\<rparr>, Inr (Some 13))"
    using c s i1 by (simp add: init_PIDController_def)
  have "min_bound ?c \<le> 1 - integral ?c" and "1 - integral ?c \<le> max_bound ?c"
    using b le i1 by simp_all
  with pi r le show ?thesis by blast
qed

lemma call_PID_zero_dt:
  "use_derivative self \<Longrightarrow> dt self = 0 \<Longrightarrow>
   call self e = (accumulate self e, Inl ZeroDivisionError)"
  by (simp add: call_def formula_def PID_formula_def accumulate_def Let_def)

lemma call_effects_call: "snd (call_effects self e) = call self e"
  by (simp add: call_effects_def call_def formula_effects_def formula_def
      PID_formula_effects_def PID_formula_def PI_formula_effects_def PI_formula_def Let_def)

text \<open>
  C2. In derivative-enabled mode (\<open>use_derivative = True\<close>, with a step
  \<open>dt \<noteq> 0\<close>) a tick, for every error value, does four things in this order: it adds
  the clamped increment to the integral, evaluates
  \<open>derivative = (e - previous_error) / dt\<close> against the error of the previous tick,
  evaluates \<open>Kp * e + Ki * integral + Kd * derivative\<close> and drops the value, and only
  then sets \<open>previous_error\<close> to \<open>e\<close>. The tick returns no value (\<open>None\<close>). So the
  derivative evaluated by the next tick, for every error \<open>e2\<close>, is \<open>(e2 - e) / dt\<close>.
  At \<open>dt = 0\<close> the division of line 50 fails or yields a non-finite value, depending on
  the kind of number passed; the statement is about the steps for which the quotient
  of the claim exists.
\<close>

theorem C2_PID_tick:
  assumes "use_derivative self" and "dt self \<noteq> 0"
  shows "\<exists>integral1 derivative.
           integral1 = integral self + clip (e * dt self) (min_bound self) (max_bound self)
         \<and> derivative = (e - previous_error self) / dt self
         \<and> call_effects self e =
             ([Assign ''integral'' integral1,
               Assign ''derivative'' derivative,
               Discard (Kp self * e + Ki self * integral1 + Kd self * derivative),
               Assign ''previous_error'' e],
              self\<lparr>integral := integral1, previous_error := e\<rparr>,
              Inr None)
         \<and> call self e = (self\<lparr>integral := integral1, previous_error := e\<rparr>, Inr None)
         \<and> (\<forall>e2. \<exists>integral2.
               call_effects (fst (call self e)) e2 =
                 ([Assign ''integral'' integral2,
                   Assign ''derivative'' ((e2 - e) / dt self),
                   Discard (Kp self * e2 + Ki self * integral2
                            + Kd self * ((e2 - e) / dt self)),
                   Assign ''previous_error'' e2],
                  self\<lparr>integral := integral2, previous_error := e2\<rparr>,
                  Inr None))"
proof -
  let ?i1 = "integral self + clip (e * dt self) (min_bound self) (max_bound self)"
  let ?s1 = "self\<lparr>integral := ?i1, previous_error := e\<rparr>"
  have tick: "call_effects s x =
             ([Assign ''integral''
                 (integral s + clip (x * dt s) (min_bound s) (max_bound s)),
               Assign ''derivative'' ((x - previous_error s) / dt s),
               Discard (Kp s * x
                        + Ki s * (integral s + clip (x * dt s) (min_bound s) (max_bound s))
                        + Kd s * ((x - previous_error s) / dt s)),
               Assign ''previous_error'' x],
              s\<lparr>integral := integral s + clip (x * dt s) (min_bound s) (max_bound s),
                previous_error := x\<rparr>,
              Inr None)"
    if "use_derivative s" and "dt s \<noteq> 0" for s x
    using that
    by (simp add: call_effects_def formula_effects_def PID_formula_effects_def
        accumulate_def Let_def)
  have c: "call self e = (?s1, Inr None)"
    using call_effects_call [of self e] tick [OF assms, of e] by simp
  have u: "use_derivative ?s1" and z: "dt ?s1 \<noteq> 0"
    using assms by simp_all
  have n: "\<exists>integral2.
               call_effects (fst (call self e)) e2 =
                 ([Assign ''integral'' integral2,
                   Assign ''derivative'' ((e2 - e) / dt self),
                   Discard (Kp self * e2 + Ki self * integral2
                            + Kd self * ((e2 - e) / dt self)),
                   Assign ''previous_error'' e2],
                  self\<lparr>integral := integral2, previous_error := e2\<rparr>,
                  Inr None)" for e2
    using tick [OF u z, of e2] c by simp
  from tick [OF assms, of e] c n show ?thesis by blast
qed

theorem C2_PID_tick_witness:
  "use_derivative (init_PIDController 2 3 4 (-1, 1) 2 True)
   \<and> dt (init_PIDController 2 3 4 (-1, 1) 2 True) \<noteq> 0
   \<and> call_effects (init_PIDController 2 3 4 (-1, 1) 2 True) 5 =
       ([Assign ''integral'' 1, Assign ''derivative'' (5 / 2), Discard 23,
         Assign ''previous_error'' 5],
        (init_PIDController 2 3 4 (-1, 1) 2 True)\<lparr>integral := 1, previous_error := 5\<rparr>,
        Inr None)
   \<and> call (init_PIDController 2 3 4 (-1, 1) 2 True) 5
       = ((init_PIDController 2 3 4 (-1, 1) 2 True)\<lparr>integral := 1, previous_error := 5\<rparr>,
          Inr None)
   \<and> (\<exists>integral2.
         call_effects (fst (call (init_PIDController 2 3 4 (-1, 1) 2 True) 5)) 9 =
           ([Assign ''integral'' integral2, Assign ''derivative'' 2,
             Discard (18 + 3 * integral2 + 8), Assign ''previous_error'' 9],
            (init_PIDController 2 3 4 (-1, 1) 2 True)
              \<lparr>integral := integral2, previous_error := 9\<rparr>,
            Inr None))"
proof -
  let ?c = "init_PIDController 2 3 4 (-1, 1) 2 True"
  have h1: "use_derivative ?c" and h2: "dt ?c \<noteq> 0"
    by (simp_all add: init_PIDController_def)
  have inc: "integral ?c + clip (5 * dt ?c) (min_bound ?c) (max_bound ?c) = 1"
    by (simp add: init_PIDController_def clip_def)
  from C2_PID_tick [OF h1 h2, of 5] inc
  have a: "call_effects ?c 5 =
       ([Assign ''integral'' 1,
         Assign ''derivative'' ((5 - previous_error ?c) / dt ?c),
         Discard (Kp ?c * 5 + Ki ?c * 1 + Kd ?c * ((5 - previous_error ?c) / dt ?c)),
         Assign ''previous_error'' 5],
        ?c\<lparr>integral := 1, previous_error := 5\<rparr>, Inr None)"
    and b: "call ?c 5 = (?c\<lparr>integral := 1, previous_error := 5\<rparr>, Inr None)"
    and n: "\<forall>e2. \<exists>integral2.
               call_effects (fst (call ?c 5)) e2 =
                 ([Assign ''integral'' integral2,
                   Assign ''derivative'' ((e2 - 5) / dt ?c),
                   Discard (Kp ?c * e2 + Ki ?c * integral2
                            + Kd ?c * ((e2 - 5) / dt ?c)),
                   Assign ''previous_error'' e2],
                  ?c\<lparr>integral := integral2, previous_error := e2\<rparr>,
                  Inr None)"
    by auto
  have a': "call_effects ?c 5 =
       ([Assign ''integral'' 1, Assign ''derivative'' (5 / 2), Discard 23,
         Assign ''previous_error'' 5],
        ?c\<lparr>integral := 1, previous_error := 5\<rparr>, Inr None)"
    using a by (simp add: init_PIDController_def)
  from n obtain integral2 where
    "call_effects (fst (call ?c 5)) 9 =
                 ([Assign ''integral'' integral2,
                   Assign ''derivative'' ((9 - 5) / dt ?c),
                   Discard (Kp ?c * 9 + Ki ?c * integral2
                            + Kd ?c * ((9 - 5) / dt ?c)),
                   Assign ''previous_error'' 9],
                  ?c\<lparr>integral := integral2, previous_error := 9\<rparr>,
                  Inr None)"
    by blast
  then have "call_effects (fst (call ?c 5)) 9 =
           ([Assign ''integral'' integral2, Assign ''derivative'' 2,
             Discard (18 + 3 * integral2 + 8), Assign ''previous_error'' 9],
            ?c\<lparr>integral := integral2, previous_error := 9\<rparr>, Inr None)"
    by (simp add: init_PIDController_def)
  with h1 h2 a' b show ?thesis by blast
qed

section \<open>Properties of the plant simulator\<close>

lemma init_Ventilator_eq:
  "init_Ventilator vt pe r ti tip =
     (if r = 0 \<or> ti = 0 then Inl ZeroDivisionError
      else Inr \<lparr> v_t = vt, peep = pe, rr = r, conv_rr = r / 60, t_i = ti, t_ip = tip,
                 t_c = 60 / r, t_e = 60 / r - ti - tip, f_i = vt / ti \<rparr>)"
  by (simp add: init_Ventilator_def Let_def)

lemma advance_counter_sim_i [simp]: "sim_i (advance_counter self b nxt) = sim_i self"
  by (simp add: advance_counter_def Let_def)

lemma advance_counter_start [simp]:
  "start_phase_time (advance_counter self b nxt) = start_phase_time self"
  by (simp add: advance_counter_def Let_def)

lemma advance_counter_fire:
  "real_of_int (phase_counter self + 1) \<ge> b \<Longrightarrow>
   phase (advance_counter self b nxt) = nxt \<and> phase_counter (advance_counter self b nxt) = 1"
  by (simp add: advance_counter_def Let_def)

lemma advance_counter_stay:
  "\<not> real_of_int (phase_counter self + 1) \<ge> b \<Longrightarrow>
   phase (advance_counter self b nxt) = phase self
   \<and> phase_counter (advance_counter self b nxt) = phase_counter self + 1"
  by (simp add: advance_counter_def Let_def)

lemma simulation_model_total:
  assumes "kw_rr kw \<noteq> 0" "kw_t_i kw \<noteq> 0" "kw_r_aw kw \<noteq> 0" "kw_c_rs kw \<noteq> 0"
  shows "\<exists>self1 obs. simulation_model self u_t x1 x2 x3 kw = (self1, Inr obs)"
  using assms
  by (cases "phase self")
     (simp_all add: simulation_model_def init_Ventilator_eq phase_equations_def
        exhale_branch_def inhale_branch_def pause_branch_def expiratory_flow_def
        init_Lung_def Let_def)

text \<open>The simulator over an arbitrary arithmetic, and over the exact one.\<close>

lemma init_Ventilator_fl_eq:
  "init_Ventilator_fl ops vt pe r ti tip =
     (if fl_div ops r 60 = 0 \<or> ti = 0 then Inl ZeroDivisionError
      else Inr \<lparr> v_t = vt, peep = pe, rr = r, conv_rr = fl_div ops r 60, t_i = ti, t_ip = tip,
                 t_c = fl_div ops 1 (fl_div ops r 60),
                 t_e = fl_sub ops (fl_sub ops (fl_div ops 1 (fl_div ops r 60)) ti) tip,
                 f_i = fl_div ops vt ti \<rparr>)"
  by (simp add: init_Ventilator_fl_def Let_def)

lemma exact_ops_sel:
  "fl_add exact_ops = (+)" "fl_sub exact_ops = (-)" "fl_mul exact_ops = (*)"
  "fl_div exact_ops = (/)" "fl_exp exact_ops = exp"
  by (simp_all add: exact_ops_def)

lemma init_Ventilator_fl_exact: "init_Ventilator_fl exact_ops = init_Ventilator"
  by (intro ext) (simp add: init_Ventilator_fl_def init_Ventilator_def exact_ops_sel Let_def)

lemma expiratory_flow_fl_exact: "expiratory_flow_fl exact_ops = expiratory_flow"
  by (intro ext) (simp add: expiratory_flow_fl_def expiratory_flow_def exact_ops_sel Let_def)

lemma exhale_branch_fl_exact: "exhale_branch_fl exact_ops = exhale_branch"
  by (intro ext)
     (simp add: exhale_branch_fl_def exhale_branch_def expiratory_flow_fl_exact
        exact_ops_sel Let_def split: sum.splits)

lemma inhale_branch_fl_exact: "inhale_branch_fl exact_ops = inhale_branch"
  by (intro ext) (simp add: inhale_branch_fl_def inhale_branch_def exact_ops_sel Let_def)

lemma pause_branch_fl_exact: "pause_branch_fl exact_ops = pause_branch"
  by (intro ext) (simp add: pause_branch_fl_def pause_branch_def exact_ops_sel Let_def)

lemma phase_equations_fl_exact: "phase_equations_fl exact_ops = phase_equations"
  by (intro ext)
     (simp add: phase_equations_fl_def phase_equations_def exhale_branch_fl_exact
        inhale_branch_fl_exact pause_branch_fl_exact split: phase.splits)

lemma simulation_model_fl_exact: "simulation_model_fl exact_ops = simulation_model"
  by (intro ext)
     (simp add: simulation_model_fl_def simulation_model_def init_Ventilator_fl_exact
        phase_equations_fl_exact init_Lung_fl_def init_Lung_def exact_ops_sel Let_def
        split: sum.splits prod.splits)

lemma run_ticks_fl_exact: "run_ticks_fl exact_ops kw self ins = run_ticks kw self ins"
  by (induction ins arbitrary: self) (auto simp: simulation_model_fl_exact)

lemma simulation_model_fl_Inr:
  assumes "simulation_model_fl ops self u_t x1 x2 x3 kw = (self1, Inr obs)"
  shows "self1 = (advance_counter
                   (if phase self = exhale \<and> phase_counter self = 0
                    then self\<lparr>start_phase_time :=
                                 fl_mul ops (real_of_int (sim_i self)) (kw_dt kw)\<rparr>
                    else self)
                   (fl_mul ops
                      (case phase self of
                         exhale \<Rightarrow>
                           fl_sub ops
                             (fl_sub ops (fl_div ops 1 (fl_div ops (kw_rr kw) 60)) (kw_t_i kw))
                             (kw_t_ip kw)
                       | inhale \<Rightarrow> kw_t_i kw
                       | pause \<Rightarrow> kw_t_ip kw)
                      (kw_f_s kw))
                   (case phase self of exhale \<Rightarrow> inhale | inhale \<Rightarrow> pause | pause \<Rightarrow> exhale))
                 \<lparr>sim_i := sim_i self + 1\<rparr>"
  using assms
  by (cases "phase self")
     (auto simp: simulation_model_fl_def init_Ventilator_fl_eq phase_equations_fl_def
        exhale_branch_fl_def inhale_branch_fl_def pause_branch_fl_def expiratory_flow_fl_def
        init_Lung_fl_def Let_def
        split: if_splits sum.splits prod.splits)

lemma simulation_model_fl_total:
  assumes "fl_div ops (kw_rr kw) 60 \<noteq> 0" "kw_t_i kw \<noteq> 0"
    "fl_div ops (kw_r_aw kw) 1000 \<noteq> 0"
    "fl_mul ops (fl_div ops (kw_r_aw kw) 1000) (kw_c_rs kw) \<noteq> 0"
    "kw_c_rs kw \<noteq> 0"
  shows "\<exists>self1 obs. simulation_model_fl ops self u_t x1 x2 x3 kw = (self1, Inr obs)"
  using assms
  by (cases "phase self")
     (simp_all add: simulation_model_fl_def init_Ventilator_fl_eq phase_equations_fl_def
        exhale_branch_fl_def inhale_branch_fl_def pause_branch_fl_def expiratory_flow_fl_def
        init_Lung_fl_def Let_def)

lemma run_ticks_fl_sim_i:
  "run_ticks_fl ops kw self ins = (self1, Inr os) \<Longrightarrow>
   sim_i self1 = sim_i self + int (length ins)"
proof (induction ins arbitrary: self os)
  case Nil
  then show ?case by simp
next
  case (Cons a ins)
  obtain u_t x1 x2 x3 where a: "a = (u_t, x1, x2, x3)"
    by (cases a) auto
  from Cons.prems a obtain self0 obs os0 where
    t: "simulation_model_fl ops self u_t x1 x2 x3 kw = (self0, Inr obs)"
    and r: "run_ticks_fl ops kw self0 ins = (self1, Inr os0)"
    by (auto split: prod.splits sum.splits)
  have "sim_i self0 = sim_i self + 1"
    using simulation_model_fl_Inr [OF t] by simp
  with Cons.IH [OF r] show ?case by simp
qed

lemma phase_eventually_changes_fl:
  assumes v: "fl_div ops (kw_rr kw) 60 \<noteq> 0" "kw_t_i kw \<noteq> 0"
      "fl_div ops (kw_r_aw kw) 1000 \<noteq> 0"
      "fl_mul ops (fl_div ops (kw_r_aw kw) 1000) (kw_c_rs kw) \<noteq> 0"
      "kw_c_rs kw \<noteq> 0"
    and b: "b = fl_mul ops
                  (case ph of
                     exhale \<Rightarrow>
                       fl_sub ops
                         (fl_sub ops (fl_div ops 1 (fl_div ops (kw_rr kw) 60)) (kw_t_i kw))
                         (kw_t_ip kw)
                   | inhale \<Rightarrow> kw_t_i kw
                   | pause \<Rightarrow> kw_t_ip kw)
                  (kw_f_s kw)"
    and n: "nxt = (case ph of exhale \<Rightarrow> inhale | inhale \<Rightarrow> pause | pause \<Rightarrow> exhale)"
  shows "phase self = ph \<Longrightarrow> nat (\<lceil>b\<rceil> - (phase_counter self + 1)) = k \<Longrightarrow>
         \<exists>m. \<forall>ins. length ins = Suc m \<longrightarrow>
           (\<exists>self1 os. run_ticks_fl ops kw self ins = (self1, Inr os)
              \<and> phase self1 = nxt \<and> phase_counter self1 = 1)"
proof (induction k arbitrary: self)
  case 0
  then have fire: "real_of_int (phase_counter self + 1) \<ge> b"
    by (simp add: ceiling_le_iff)
  let ?self0 = "if phase self = exhale \<and> phase_counter self = 0
                then self\<lparr>start_phase_time :=
                             fl_mul ops (real_of_int (sim_i self)) (kw_dt kw)\<rparr>
                else self"
  let ?s = "(advance_counter ?self0 b nxt)\<lparr>sim_i := sim_i self + 1\<rparr>"
  have tick: "\<exists>obs. simulation_model_fl ops self u_t x1 x2 x3 kw = (?s, Inr obs)"
    for u_t x1 x2 x3
  proof -
    from simulation_model_fl_total [OF v] obtain self1 obs
      where r: "simulation_model_fl ops self u_t x1 x2 x3 kw = (self1, Inr obs)"
      by blast
    from simulation_model_fl_Inr [OF r] b n "0.prems"(1) have "self1 = ?s" by simp
    with r show ?thesis by blast
  qed
  have p0: "phase_counter ?self0 = phase_counter self"
    by simp
  have "real_of_int (phase_counter ?self0 + 1) \<ge> b"
    by (subst p0) (rule fire)
  from advance_counter_fire [OF this, of nxt]
  have ph_s: "phase ?s = nxt" and pc_s: "phase_counter ?s = 1"
    by simp_all
  have "\<forall>ins. length ins = Suc 0 \<longrightarrow>
           (\<exists>self1 os. run_ticks_fl ops kw self ins = (self1, Inr os)
              \<and> phase self1 = nxt \<and> phase_counter self1 = 1)"
  proof (intro allI impI)
    fix ins :: "(real \<times> real \<times> real \<times> real) list"
    assume "length ins = Suc 0"
    then obtain u_t x1 x2 x3 where i: "ins = [(u_t, x1, x2, x3)]"
      by (cases ins) auto
    from tick [of u_t x1 x2 x3] obtain obs
      where t: "simulation_model_fl ops self u_t x1 x2 x3 kw = (?s, Inr obs)"
      by blast
    show "\<exists>self1 os. run_ticks_fl ops kw self ins = (self1, Inr os)
              \<and> phase self1 = nxt \<and> phase_counter self1 = 1"
      using i t ph_s pc_s by simp
  qed
  then show ?case by blast
next
  case (Suc k)
  then have stay: "\<not> real_of_int (phase_counter self + 1) \<ge> b"
    by (simp add: ceiling_le_iff) linarith
  let ?self0 = "if phase self = exhale \<and> phase_counter self = 0
                then self\<lparr>start_phase_time :=
                             fl_mul ops (real_of_int (sim_i self)) (kw_dt kw)\<rparr>
                else self"
  let ?s = "(advance_counter ?self0 b nxt)\<lparr>sim_i := sim_i self + 1\<rparr>"
  have tick: "\<exists>obs. simulation_model_fl ops self u_t x1 x2 x3 kw = (?s, Inr obs)"
    for u_t x1 x2 x3
  proof -
    from simulation_model_fl_total [OF v] obtain self1 obs
      where r: "simulation_model_fl ops self u_t x1 x2 x3 kw = (self1, Inr obs)"
      by blast
    from simulation_model_fl_Inr [OF r] b n Suc.prems(1) have "self1 = ?s" by simp
    with r show ?thesis by blast
  qed
  have p0: "phase_counter ?self0 = phase_counter self" and q0: "phase ?self0 = phase self"
    by simp_all
  have "\<not> real_of_int (phase_counter ?self0 + 1) \<ge> b"
    by (subst p0) (rule stay)
  from advance_counter_stay [OF this, of nxt]
  have ph_s: "phase ?s = ph" and pc_s: "phase_counter ?s = phase_counter self + 1"
    using Suc.prems(1) p0 q0 by simp_all
  have "nat (\<lceil>b\<rceil> - (phase_counter ?s + 1)) = k"
    using Suc.prems(2) pc_s by simp
  from Suc.IH [OF ph_s this] obtain m where
    m: "\<forall>ins. length ins = Suc m \<longrightarrow>
           (\<exists>self1 os. run_ticks_fl ops kw ?s ins = (self1, Inr os)
              \<and> phase self1 = nxt \<and> phase_counter self1 = 1)"
    by blast
  have "\<forall>ins. length ins = Suc (Suc m) \<longrightarrow>
           (\<exists>self1 os. run_ticks_fl ops kw self ins = (self1, Inr os)
              \<and> phase self1 = nxt \<and> phase_counter self1 = 1)"
  proof (intro allI impI)
    fix ins :: "(real \<times> real \<times> real \<times> real) list"
    assume "length ins = Suc (Suc m)"
    then obtain u_t x1 x2 x3 rest where i: "ins = (u_t, x1, x2, x3) # rest"
      and l: "length rest = Suc m"
      by (cases ins) auto
    from tick [of u_t x1 x2 x3] obtain obs
      where t: "simulation_model_fl ops self u_t x1 x2 x3 kw = (?s, Inr obs)"
      by blast
    from m l obtain self1 os where "run_ticks_fl ops kw ?s rest = (self1, Inr os)"
      and "phase self1 = nxt" and "phase_counter self1 = 1"
      by blast
    then show "\<exists>self1 os. run_ticks_fl ops kw self ins = (self1, Inr os)
              \<and> phase self1 = nxt \<and> phase_counter self1 = 1"
      using i t by simp
  qed
  then show ?case by blast
qed

text \<open>
  C3. The phase type has exactly the values exhale, inhale and pause, and the instance
  starts in exhale. The statement holds for every floating-point arithmetic, so for the
  doubles of the source. On every call that returns, the tick index grows by exactly 1
  whatever the phase, and the phase changes exactly when the incremented phase counter
  has reached the product \<open>duration * f_s\<close> as the source computes it (the expiratory
  time \<open>1 / (rr / 60) - t_i - t_ip\<close> in exhale, \<open>t_i\<close> in inhale, \<open>t_ip\<close> in pause); the
  change follows exhale, inhale, pause, exhale and sets the counter to 1, and otherwise
  the counter grows by 1. Over a sequence of calls the tick index grows by the number of
  calls, so it is never reset. No phase is terminal: when the divisors the source
  computes are non-zero every call returns, and from every state some number of calls
  leads to the next phase of the cycle, whatever actions and x vectors are passed.
\<close>

theorem C3_phase_state_machine:
  "(UNIV :: phase set) = {exhale, inhale, pause}
   \<and> phase initial_state = exhale
   \<and> (\<forall>ops self u_t x1 x2 x3 kw self1 obs.
        simulation_model_fl ops self u_t x1 x2 x3 kw = (self1, Inr obs) \<longrightarrow>
          sim_i self1 = sim_i self + 1
          \<and> (if real_of_int (phase_counter self + 1)
                  \<ge> fl_mul ops
                       (case phase self of
                          exhale \<Rightarrow>
                            fl_sub ops
                              (fl_sub ops (fl_div ops 1 (fl_div ops (kw_rr kw) 60))
                                 (kw_t_i kw))
                              (kw_t_ip kw)
                        | inhale \<Rightarrow> kw_t_i kw
                        | pause \<Rightarrow> kw_t_ip kw)
                       (kw_f_s kw)
               then phase self1 = (case phase self of
                                     exhale \<Rightarrow> inhale | inhale \<Rightarrow> pause | pause \<Rightarrow> exhale)
                    \<and> phase_counter self1 = 1
               else phase self1 = phase self
                    \<and> phase_counter self1 = phase_counter self + 1))
   \<and> (\<forall>ops kw self ins self1 os.
        run_ticks_fl ops kw self ins = (self1, Inr os) \<longrightarrow>
          sim_i self1 = sim_i self + int (length ins))
   \<and> (\<forall>ops kw self.
        fl_div ops (kw_rr kw) 60 \<noteq> 0 \<and> kw_t_i kw \<noteq> 0
        \<and> fl_div ops (kw_r_aw kw) 1000 \<noteq> 0
        \<and> fl_mul ops (fl_div ops (kw_r_aw kw) 1000) (kw_c_rs kw) \<noteq> 0
        \<and> kw_c_rs kw \<noteq> 0 \<longrightarrow>
          (\<exists>m. \<forall>ins. length ins = Suc m \<longrightarrow>
             (\<exists>self1 os. run_ticks_fl ops kw self ins = (self1, Inr os)
                \<and> phase self1 = (case phase self of
                                    exhale \<Rightarrow> inhale | inhale \<Rightarrow> pause | pause \<Rightarrow> exhale)
                \<and> phase_counter self1 = 1)))"
proof (intro conjI allI impI)
  show "(UNIV :: phase set) = {exhale, inhale, pause}"
  proof -
    have "x \<in> {exhale, inhale, pause}" for x :: phase
      by (cases x) simp_all
    then show ?thesis by blast
  qed
next
  show "phase initial_state = exhale"
    by (simp add: initial_state_def)
next
  fix ops self u_t x1 x2 x3 kw self1 obs
  assume r: "simulation_model_fl ops self u_t x1 x2 x3 kw = (self1, Inr obs)"
  let ?b = "fl_mul ops
              (case phase self of
                 exhale \<Rightarrow>
                   fl_sub ops
                     (fl_sub ops (fl_div ops 1 (fl_div ops (kw_rr kw) 60)) (kw_t_i kw))
                     (kw_t_ip kw)
               | inhale \<Rightarrow> kw_t_i kw
               | pause \<Rightarrow> kw_t_ip kw)
              (kw_f_s kw)"
  let ?n = "case phase self of exhale \<Rightarrow> inhale | inhale \<Rightarrow> pause | pause \<Rightarrow> exhale"
  let ?self0 = "if phase self = exhale \<and> phase_counter self = 0
                then self\<lparr>start_phase_time :=
                             fl_mul ops (real_of_int (sim_i self)) (kw_dt kw)\<rparr>
                else self"
  have s1: "self1 = (advance_counter ?self0 ?b ?n)\<lparr>sim_i := sim_i self + 1\<rparr>"
    using simulation_model_fl_Inr [OF r] by simp
  have p0: "phase_counter ?self0 = phase_counter self" and q0: "phase ?self0 = phase self"
    by simp_all
  show "sim_i self1 = sim_i self + 1"
    using s1 by simp
  show "if real_of_int (phase_counter self + 1) \<ge> ?b
        then phase self1 = ?n \<and> phase_counter self1 = 1
        else phase self1 = phase self \<and> phase_counter self1 = phase_counter self + 1"
  proof (cases "real_of_int (phase_counter self + 1) \<ge> ?b")
    case True
    have "real_of_int (phase_counter ?self0 + 1) \<ge> ?b" by (subst p0) (rule True)
    from advance_counter_fire [OF this, of ?n] True s1 show ?thesis by simp
  next
    case False
    have "\<not> real_of_int (phase_counter ?self0 + 1) \<ge> ?b" by (subst p0) (rule False)
    from advance_counter_stay [OF this, of ?n] False s1 p0 q0 show ?thesis by simp
  qed
next
  fix ops kw self ins self1 os
  assume "run_ticks_fl ops kw self ins = (self1, Inr os)"
  then show "sim_i self1 = sim_i self + int (length ins)"
    by (rule run_ticks_fl_sim_i)
next
  fix ops :: float_ops and kw :: model_kwargs and self :: SimulationState
  assume "fl_div ops (kw_rr kw) 60 \<noteq> 0 \<and> kw_t_i kw \<noteq> 0
        \<and> fl_div ops (kw_r_aw kw) 1000 \<noteq> 0
        \<and> fl_mul ops (fl_div ops (kw_r_aw kw) 1000) (kw_c_rs kw) \<noteq> 0
        \<and> kw_c_rs kw \<noteq> 0"
  then have v: "fl_div ops (kw_rr kw) 60 \<noteq> 0" "kw_t_i kw \<noteq> 0"
      "fl_div ops (kw_r_aw kw) 1000 \<noteq> 0"
      "fl_mul ops (fl_div ops (kw_r_aw kw) 1000) (kw_c_rs kw) \<noteq> 0"
      "kw_c_rs kw \<noteq> 0"
    by simp_all
  show "\<exists>m. \<forall>ins. length ins = Suc m \<longrightarrow>
             (\<exists>self1 os. run_ticks_fl ops kw self ins = (self1, Inr os)
                \<and> phase self1 = (case phase self of
                                    exhale \<Rightarrow> inhale | inhale \<Rightarrow> pause | pause \<Rightarrow> exhale)
                \<and> phase_counter self1 = 1)"
    by (rule phase_eventually_changes_fl [OF v refl refl refl refl])
qed

lemma tick_1Hz_initial:
  "simulation_model initial_state 0 0 0 5 kwargs_1Hz
     = (\<lparr> sim_i = 1, phase_counter = 2, phase = exhale, start_phase_time = 0 \<rparr>,
        Inr [(''x1'', 0), (''x2'', 0), (''x3'', 5)])"
  by (simp add: simulation_model_def init_Ventilator_eq phase_equations_def
        exhale_branch_def expiratory_flow_def advance_counter_def
        init_Lung_def initial_state_def Let_def)

lemma tick_1Hz_second:
  "simulation_model \<lparr> sim_i = 1, phase_counter = 2, phase = exhale, start_phase_time = 0 \<rparr>
       0 0 0 5 kwargs_1Hz
     = (\<lparr> sim_i = 2, phase_counter = 1, phase = inhale, start_phase_time = 0 \<rparr>,
        Inr [(''x1'', 0), (''x2'', 0), (''x3'', 5)])"
  by (simp add: simulation_model_def init_Ventilator_eq phase_equations_def
        exhale_branch_def expiratory_flow_def advance_counter_def
        init_Lung_def Let_def)

lemma tick_1Hz_third:
  "simulation_model \<lparr> sim_i = 2, phase_counter = 1, phase = inhale, start_phase_time = 0 \<rparr>
       0 0 10 5 kwargs_1Hz
     = (\<lparr> sim_i = 3, phase_counter = 1, phase = pause, start_phase_time = 0 \<rparr>,
        Inr [(''x1'', 21), (''x2'', 360), (''x3'', 241 / 20)])"
  by (simp add: simulation_model_def init_Ventilator_eq phase_equations_def
        inhale_branch_def advance_counter_def init_Lung_def Let_def)

lemma tick_1Hz_fourth:
  "simulation_model \<lparr> sim_i = 3, phase_counter = 1, phase = pause, start_phase_time = 0 \<rparr>
       0 21 360 (241 / 20) kwargs_1Hz
     = (\<lparr> sim_i = 4, phase_counter = 1, phase = exhale, start_phase_time = 0 \<rparr>,
        Inr [(''x1'', 0), (''x2'', 360), (''x3'', 11)])"
  by (simp add: simulation_model_def init_Ventilator_eq phase_equations_def
        pause_branch_def advance_counter_def init_Lung_def Let_def)

lemma tick_1Hz_fifth:
  "simulation_model \<lparr> sim_i = 4, phase_counter = 1, phase = exhale, start_phase_time = 0 \<rparr>
       0 0 360 11 kwargs_1Hz
     = (\<lparr> sim_i = 5, phase_counter = 2, phase = exhale, start_phase_time = 0 \<rparr>,
        Inr [(''x1'', (5 - 11) / (3 / 1000) * exp (- (4 - 0) / (3 / 1000 * 60)) * 60 / 1000),
             (''x2'', 360 + (5 - 11) / (3 / 1000) * exp (- (4 - 0) / (3 / 1000 * 60)) * 1),
             (''x3'', (5 - 11) / (3 / 1000) * exp (- (4 - 0) / (3 / 1000 * 60)) * (3 / 1000)
                      + (360 + (5 - 11) / (3 / 1000) * exp (- (4 - 0) / (3 / 1000 * 60)) * 1) / 60
                      + 5)])"
  by (simp add: simulation_model_def init_Ventilator_eq phase_equations_def
        exhale_branch_def expiratory_flow_def advance_counter_def
        init_Lung_def Let_def)

lemma run_1Hz_cycle:
  "run_ticks kwargs_1Hz initial_state
       [(0, 0, 0, 5), (0, 0, 0, 5), (0, 0, 10, 5), (0, 21, 360, 241 / 20)]
     = (\<lparr> sim_i = 4, phase_counter = 1, phase = exhale, start_phase_time = 0 \<rparr>,
        Inr [[(''x1'', 0), (''x2'', 0), (''x3'', 5)],
             [(''x1'', 0), (''x2'', 0), (''x3'', 5)],
             [(''x1'', 21), (''x2'', 360), (''x3'', 241 / 20)],
             [(''x1'', 0), (''x2'', 360), (''x3'', 11)]])"
  by (simp add: tick_1Hz_initial tick_1Hz_second tick_1Hz_third tick_1Hz_fourth)

theorem C3_phase_state_machine_witness:
  "simulation_model_fl exact_ops initial_state 0 0 0 5 kwargs_1Hz
     = (\<lparr> sim_i = 1, phase_counter = 2, phase = exhale, start_phase_time = 0 \<rparr>,
        Inr [(''x1'', 0), (''x2'', 0), (''x3'', 5)])
   \<and> sim_i \<lparr> sim_i = 1, phase_counter = 2, phase = exhale, start_phase_time = 0 \<rparr>
       = sim_i initial_state + 1
   \<and> \<not> real_of_int (phase_counter initial_state + 1) \<ge> (1 / (15 / 60) - 1 - 1 / 4) * 1
   \<and> phase_counter \<lparr> sim_i = 1, phase_counter = 2, phase = exhale, start_phase_time = 0 \<rparr>
       = phase_counter initial_state + 1
   \<and> run_ticks_fl exact_ops kwargs_1Hz initial_state
         [(0, 0, 0, 5), (0, 0, 0, 5), (0, 0, 10, 5), (0, 21, 360, 241 / 20)]
       = (\<lparr> sim_i = 4, phase_counter = 1, phase = exhale, start_phase_time = 0 \<rparr>,
          Inr [[(''x1'', 0), (''x2'', 0), (''x3'', 5)],
               [(''x1'', 0), (''x2'', 0), (''x3'', 5)],
               [(''x1'', 21), (''x2'', 360), (''x3'', 241 / 20)],
               [(''x1'', 0), (''x2'', 360), (''x3'', 11)]])
   \<and> sim_i \<lparr> sim_i = 4, phase_counter = 1, phase = exhale, start_phase_time = 0 \<rparr>
       = sim_i initial_state + 4
   \<and> fl_div exact_ops (kw_rr kwargs_1Hz) 60 \<noteq> 0 \<and> kw_t_i kwargs_1Hz \<noteq> 0
   \<and> fl_div exact_ops (kw_r_aw kwargs_1Hz) 1000 \<noteq> 0
   \<and> fl_mul exact_ops (fl_div exact_ops (kw_r_aw kwargs_1Hz) 1000) (kw_c_rs kwargs_1Hz) \<noteq> 0
   \<and> kw_c_rs kwargs_1Hz \<noteq> 0
   \<and> (\<exists>m. \<forall>ins. length ins = Suc m \<longrightarrow>
         (\<exists>self1 os. run_ticks_fl exact_ops kwargs_1Hz initial_state ins = (self1, Inr os)
            \<and> phase self1 = inhale \<and> phase_counter self1 = 1))"
proof -
  let ?s = "\<lparr> sim_i = 1, phase_counter = 2, phase = exhale, start_phase_time = 0 \<rparr>"
  let ?s4 = "\<lparr> sim_i = 4, phase_counter = 1, phase = exhale, start_phase_time = 0 \<rparr>"
  have t: "simulation_model_fl exact_ops initial_state 0 0 0 5 kwargs_1Hz
     = (?s, Inr [(''x1'', 0), (''x2'', 0), (''x3'', 5)])"
    by (simp add: simulation_model_fl_exact tick_1Hz_initial)
  have r: "run_ticks_fl exact_ops kwargs_1Hz initial_state
         [(0, 0, 0, 5), (0, 0, 0, 5), (0, 0, 10, 5), (0, 21, 360, 241 / 20)]
       = (?s4,
          Inr [[(''x1'', 0), (''x2'', 0), (''x3'', 5)],
               [(''x1'', 0), (''x2'', 0), (''x3'', 5)],
               [(''x1'', 21), (''x2'', 360), (''x3'', 241 / 20)],
               [(''x1'', 0), (''x2'', 360), (''x3'', 11)]])"
    by (simp only: run_ticks_fl_exact run_1Hz_cycle)
  from C3_phase_state_machine have step:
    "\<forall>ops self u_t x1 x2 x3 kw self1 obs.
        simulation_model_fl ops self u_t x1 x2 x3 kw = (self1, Inr obs) \<longrightarrow>
          sim_i self1 = sim_i self + 1
          \<and> (if real_of_int (phase_counter self + 1)
                  \<ge> fl_mul ops
                       (case phase self of
                          exhale \<Rightarrow>
                            fl_sub ops
                              (fl_sub ops (fl_div ops 1 (fl_div ops (kw_rr kw) 60))
                                 (kw_t_i kw))
                              (kw_t_ip kw)
                        | inhale \<Rightarrow> kw_t_i kw
                        | pause \<Rightarrow> kw_t_ip kw)
                       (kw_f_s kw)
               then phase self1 = (case phase self of
                                     exhale \<Rightarrow> inhale | inhale \<Rightarrow> pause | pause \<Rightarrow> exhale)
                    \<and> phase_counter self1 = 1
               else phase self1 = phase self
                    \<and> phase_counter self1 = phase_counter self + 1)"
    and run: "\<forall>ops kw self ins self1 os.
        run_ticks_fl ops kw self ins = (self1, Inr os) \<longrightarrow>
          sim_i self1 = sim_i self + int (length ins)"
    and live: "\<forall>ops kw self.
        fl_div ops (kw_rr kw) 60 \<noteq> 0 \<and> kw_t_i kw \<noteq> 0
        \<and> fl_div ops (kw_r_aw kw) 1000 \<noteq> 0
        \<and> fl_mul ops (fl_div ops (kw_r_aw kw) 1000) (kw_c_rs kw) \<noteq> 0
        \<and> kw_c_rs kw \<noteq> 0 \<longrightarrow>
          (\<exists>m. \<forall>ins. length ins = Suc m \<longrightarrow>
             (\<exists>self1 os. run_ticks_fl ops kw self ins = (self1, Inr os)
                \<and> phase self1 = (case phase self of
                                    exhale \<Rightarrow> inhale | inhale \<Rightarrow> pause | pause \<Rightarrow> exhale)
                \<and> phase_counter self1 = 1))"
    by blast+
  from step [rule_format, OF t]
  have a: "sim_i ?s = sim_i initial_state + 1"
    and b: "phase_counter ?s = phase_counter initial_state + 1"
    by (simp_all add: initial_state_def exact_ops_sel)
  have c: "\<not> real_of_int (phase_counter initial_state + 1) \<ge> (1 / (15 / 60) - 1 - 1 / 4) * 1"
    by (simp add: initial_state_def)
  from run [rule_format, OF r]
  have d: "sim_i ?s4 = sim_i initial_state + 4"
    by simp
  have v: "fl_div exact_ops (kw_rr kwargs_1Hz) 60 \<noteq> 0 \<and> kw_t_i kwargs_1Hz \<noteq> 0
        \<and> fl_div exact_ops (kw_r_aw kwargs_1Hz) 1000 \<noteq> 0
        \<and> fl_mul exact_ops (fl_div exact_ops (kw_r_aw kwargs_1Hz) 1000) (kw_c_rs kwargs_1Hz)
            \<noteq> 0
        \<and> kw_c_rs kwargs_1Hz \<noteq> 0"
    by (simp add: exact_ops_sel)
  from live [rule_format, OF v, of initial_state]
  have e: "\<exists>m. \<forall>ins. length ins = Suc m \<longrightarrow>
         (\<exists>self1 os. run_ticks_fl exact_ops kwargs_1Hz initial_state ins = (self1, Inr os)
            \<and> phase self1 = inhale \<and> phase_counter self1 = 1)"
    by (simp add: initial_state_def)
  from t a b c r d v e show ?thesis by blast
qed

lemma advance_counter_ge_1:
  "1 \<le> phase_counter self \<Longrightarrow> 1 \<le> phase_counter (advance_counter self b nxt)"
  by (simp add: advance_counter_def Let_def)

lemma simulation_model_keeps_start:
  assumes "1 \<le> phase_counter self" and "start_phase_time self = 0"
  shows "1 \<le> phase_counter (fst (simulation_model self u_t x1 x2 x3 kw))
         \<and> start_phase_time (fst (simulation_model self u_t x1 x2 x3 kw)) = 0"
  using assms
  by (cases "phase self")
     (auto simp: simulation_model_def phase_equations_def
        exhale_branch_def inhale_branch_def pause_branch_def Let_def
        advance_counter_ge_1
        split: sum.splits prod.splits if_splits)

lemma run_ticks_keeps_start:
  "1 \<le> phase_counter self \<Longrightarrow> start_phase_time self = 0 \<Longrightarrow>
   1 \<le> phase_counter (fst (run_ticks kw self ins))
   \<and> start_phase_time (fst (run_ticks kw self ins)) = 0"
proof (induction ins arbitrary: self)
  case Nil
  then show ?case by simp
next
  case (Cons a ins)
  obtain u_t x1 x2 x3 where a: "a = (u_t, x1, x2, x3)"
    by (cases a) auto
  obtain self1 r where t: "simulation_model self u_t x1 x2 x3 kw = (self1, r)"
    by (cases "simulation_model self u_t x1 x2 x3 kw") auto
  from simulation_model_keeps_start [OF Cons.prems, of u_t x1 x2 x3 kw] t
  have k: "1 \<le> phase_counter self1" "start_phase_time self1 = 0"
    by simp_all
  show ?case
  proof (cases r)
    case (Inl err)
    with a t k show ?thesis by simp
  next
    case (Inr obs)
    from Cons.IH [OF k] have
      "1 \<le> phase_counter (fst (run_ticks kw self1 ins))
       \<and> start_phase_time (fst (run_ticks kw self1 ins)) = 0" .
    with a t Inr show ?thesis
      by (auto split: prod.splits sum.splits)
  qed
qed

text \<open>
  C6 (evaluation of the code). The start time of the exhale phase is written only
  when \<open>phase_counter = 0\<close>, and the counter starts at 1 and is set to 1 by every
  transition. With the 1 Hz arguments, four calls from the initial state go through
  exhale, inhale and pause and enter exhale again at tick index 4, with the counter
  at 1 and the start time still 0; the fifth call, at time \<open>4 * dt = 4\<close>, computes
  the expiratory flow with the elapsed time \<open>4 - 0\<close>. In every state reached from the
  initial one, whatever the arguments, the counter is at least 1 and the start time
  is 0.
\<close>

theorem C6_exhale_entry_not_latched:
  "run_ticks kwargs_1Hz initial_state
       [(0, 0, 0, 5), (0, 0, 0, 5), (0, 0, 10, 5), (0, 21, 360, 241 / 20)]
     = (\<lparr> sim_i = 4, phase_counter = 1, phase = exhale, start_phase_time = 0 \<rparr>,
        Inr [[(''x1'', 0), (''x2'', 0), (''x3'', 5)],
             [(''x1'', 0), (''x2'', 0), (''x3'', 5)],
             [(''x1'', 21), (''x2'', 360), (''x3'', 241 / 20)],
             [(''x1'', 0), (''x2'', 360), (''x3'', 11)]])
   \<and> simulation_model
         \<lparr> sim_i = 4, phase_counter = 1, phase = exhale, start_phase_time = 0 \<rparr>
         0 0 360 11 kwargs_1Hz
       = (\<lparr> sim_i = 5, phase_counter = 2, phase = exhale, start_phase_time = 0 \<rparr>,
          Inr [(''x1'', (5 - 11) / (3 / 1000) * exp (- (4 - 0) / (3 / 1000 * 60)) * 60 / 1000),
               (''x2'', 360 + (5 - 11) / (3 / 1000) * exp (- (4 - 0) / (3 / 1000 * 60)) * 1),
               (''x3'', (5 - 11) / (3 / 1000) * exp (- (4 - 0) / (3 / 1000 * 60)) * (3 / 1000)
                        + (360 + (5 - 11) / (3 / 1000) * exp (- (4 - 0) / (3 / 1000 * 60)) * 1) / 60
                        + 5)])
   \<and> real_of_int (sim_i \<lparr> sim_i = 4, phase_counter = 1, phase = exhale, start_phase_time = 0 \<rparr>)
         * kw_dt kwargs_1Hz = 4
   \<and> (\<forall>kw ins. 1 \<le> phase_counter (fst (run_ticks kw initial_state ins))
                \<and> start_phase_time (fst (run_ticks kw initial_state ins)) = 0)"
proof (intro conjI allI)
  show "run_ticks kwargs_1Hz initial_state
       [(0, 0, 0, 5), (0, 0, 0, 5), (0, 0, 10, 5), (0, 21, 360, 241 / 20)]
     = (\<lparr> sim_i = 4, phase_counter = 1, phase = exhale, start_phase_time = 0 \<rparr>,
        Inr [[(''x1'', 0), (''x2'', 0), (''x3'', 5)],
             [(''x1'', 0), (''x2'', 0), (''x3'', 5)],
             [(''x1'', 21), (''x2'', 360), (''x3'', 241 / 20)],
             [(''x1'', 0), (''x2'', 360), (''x3'', 11)]])"
    by (rule run_1Hz_cycle)
next
  show "simulation_model
         \<lparr> sim_i = 4, phase_counter = 1, phase = exhale, start_phase_time = 0 \<rparr>
         0 0 360 11 kwargs_1Hz
       = (\<lparr> sim_i = 5, phase_counter = 2, phase = exhale, start_phase_time = 0 \<rparr>,
          Inr [(''x1'', (5 - 11) / (3 / 1000) * exp (- (4 - 0) / (3 / 1000 * 60)) * 60 / 1000),
               (''x2'', 360 + (5 - 11) / (3 / 1000) * exp (- (4 - 0) / (3 / 1000 * 60)) * 1),
               (''x3'', (5 - 11) / (3 / 1000) * exp (- (4 - 0) / (3 / 1000 * 60)) * (3 / 1000)
                        + (360 + (5 - 11) / (3 / 1000) * exp (- (4 - 0) / (3 / 1000 * 60)) * 1) / 60
                        + 5)])"
    by (rule tick_1Hz_fifth)
next
  show "real_of_int (sim_i \<lparr> sim_i = 4, phase_counter = 1, phase = exhale, start_phase_time = 0 \<rparr>)
         * kw_dt kwargs_1Hz = 4"
    by simp
next
  fix kw ins
  have "1 \<le> phase_counter initial_state" and "start_phase_time initial_state = 0"
    by (simp_all add: initial_state_def)
  from run_ticks_keeps_start [OF this, of kw ins]
  show "1 \<le> phase_counter (fst (run_ticks kw initial_state ins))"
    and "start_phase_time (fst (run_ticks kw initial_state ins)) = 0"
    by simp_all
qed

text \<open>
  C7 (the claim as stated fails). A respiratory rate of 60 with \<open>t_i = 1\<close> and
  \<open>t_ip = 1/4\<close> gives the expiratory time \<open>-1/4\<close>, and the constructor returns
  the instance.
\<close>

theorem C7_accepts_nonpositive_expiratory_time:
  "init_Ventilator 350 5 60 1 (1 / 4)
     = Inr \<lparr> v_t = 350, peep = 5, rr = 60, conv_rr = 1, t_i = 1, t_ip = 1 / 4,
             t_c = 1, t_e = - (1 / 4), f_i = 350 \<rparr>
   \<and> \<not> 0 < t_e \<lparr> v_t = 350, peep = 5, rr = 60, conv_rr = 1, t_i = 1, t_ip = 1 / 4,
                     t_c = 1, t_e = - (1 / 4), f_i = 350 \<rparr>"
  by (simp add: init_Ventilator_def Let_def)

text \<open>
  C7 (amended). The constructor computes the cycle time \<open>60 / rr\<close> (as
  \<open>1 / (rr / 60)\<close>), the expiratory time \<open>t_c - t_i - t_ip\<close> and the inspiratory flow
  \<open>v_t / t_i\<close>, and it does not check the expiratory time: whenever the two divisors
  it computes, \<open>rr / 60\<close> and \<open>t_i\<close>, are non-zero, it returns the instance with these
  values, whatever the sign of the expiratory time. The first conjunct is for every
  floating-point arithmetic; the second gives the values over the reals.
\<close>

theorem C7_ventilator_construction:
  "(fl_div ops r 60 \<noteq> 0 \<and> ti \<noteq> 0 \<longrightarrow>
      init_Ventilator_fl ops vt pe r ti tip =
        Inr \<lparr> v_t = vt, peep = pe, rr = r, conv_rr = fl_div ops r 60, t_i = ti, t_ip = tip,
              t_c = fl_div ops 1 (fl_div ops r 60),
              t_e = fl_sub ops (fl_sub ops (fl_div ops 1 (fl_div ops r 60)) ti) tip,
              f_i = fl_div ops vt ti \<rparr>)
   \<and> (\<forall>v. init_Ventilator vt pe r ti tip = Inr v \<longrightarrow>
          t_c v = 60 / r \<and> t_e v = t_c v - ti - tip \<and> f_i v = vt / ti)"
  by (auto simp: init_Ventilator_fl_eq init_Ventilator_eq)

theorem C7_ventilator_construction_witness:
  "fl_div exact_ops 60 60 \<noteq> 0 \<and> (1 :: real) \<noteq> 0
   \<and> init_Ventilator_fl exact_ops 350 5 60 1 (1 / 4)
       = Inr \<lparr> v_t = 350, peep = 5, rr = 60, conv_rr = 1, t_i = 1, t_ip = 1 / 4,
               t_c = 1, t_e = - (1 / 4), f_i = 350 \<rparr>
   \<and> init_Ventilator 350 5 15 1 (1 / 4)
       = Inr \<lparr> v_t = 350, peep = 5, rr = 15, conv_rr = 1 / 4, t_i = 1, t_ip = 1 / 4,
               t_c = 4, t_e = 11 / 4, f_i = 350 \<rparr>
   \<and> t_c \<lparr> v_t = 350, peep = 5, rr = 15, conv_rr = 1 / 4, t_i = 1, t_ip = 1 / 4,
           t_c = 4, t_e = 11 / 4, f_i = 350 \<rparr> = 60 / 15"
proof -
  have h: "fl_div exact_ops 60 60 \<noteq> 0 \<and> (1 :: real) \<noteq> 0"
    by (simp add: exact_ops_sel)
  have i: "init_Ventilator 350 5 15 1 (1 / 4)
       = Inr \<lparr> v_t = 350, peep = 5, rr = 15, conv_rr = 1 / 4, t_i = 1, t_ip = 1 / 4,
               t_c = 4, t_e = 11 / 4, f_i = 350 \<rparr>"
    by (simp add: init_Ventilator_eq)
  from C7_ventilator_construction [of exact_ops 60 1 350 5 "1 / 4"] h
  have a: "init_Ventilator_fl exact_ops 350 5 60 1 (1 / 4)
       = Inr \<lparr> v_t = 350, peep = 5, rr = 60, conv_rr = 1, t_i = 1, t_ip = 1 / 4,
               t_c = 1, t_e = - (1 / 4), f_i = 350 \<rparr>"
    by (simp add: exact_ops_sel)
  from C7_ventilator_construction [of exact_ops 15 1 350 5 "1 / 4"] i
  have b: "t_c \<lparr> v_t = 350, peep = 5, rr = 15, conv_rr = 1 / 4, t_i = 1, t_ip = 1 / 4,
           t_c = 4, t_e = 11 / 4, f_i = 350 \<rparr> = 60 / 15"
    by simp
  from h a i b show ?thesis by blast
qed

text \<open>
  C9. On every tick that returns, the observation is the dictionary with exactly the
  keys x1, x2, x3, holding the flow, the volume and the pressure. x1 is the flow of the
  phase equations times \<open>60 / 1000\<close>; the volume and the pressure are the ones the
  phase equations computed from the unconverted flow (the expiratory flow in exhale,
  \<open>v_t / t_i\<close> in inhale, 0 in pause), so the conversion is applied after them and
  only to the reported flow.
\<close>

theorem C9_observation_boundary:
  assumes "simulation_model self u_t x1 x2 x3 kw = (self1, Inr obs)"
  shows "\<exists>ventilator self0 flow volume pressure.
           init_Ventilator (kw_v_t kw) (kw_peep kw) (kw_rr kw) (kw_t_i kw) (kw_t_ip kw)
             = Inr ventilator
         \<and> phase_equations self (init_Lung (kw_r_aw kw) (kw_c_rs kw)) ventilator kw x2 x3
             = (self0, Inr (flow, volume, pressure))
         \<and> obs = [(''x1'', flow * 60 / 1000), (''x2'', volume), (''x3'', pressure)]
         \<and> flow = (case phase self of
                      exhale \<Rightarrow>
                        (kw_peep kw - x3) / (kw_r_aw kw / 1000)
                        * exp (- (real_of_int (sim_i self) * kw_dt kw
                                  - (if phase_counter self = 0
                                     then real_of_int (sim_i self) * kw_dt kw
                                     else start_phase_time self))
                               / (kw_r_aw kw / 1000 * kw_c_rs kw))
                    | inhale \<Rightarrow> kw_v_t kw / kw_t_i kw
                    | pause \<Rightarrow> 0)
         \<and> volume = (case phase self of
                        exhale \<Rightarrow> x2 + flow * kw_dt kw
                      | inhale \<Rightarrow> (if sim_i self > 0 then x2 + flow * kw_dt kw else 0)
                      | pause \<Rightarrow> x2)
         \<and> pressure = flow * (kw_r_aw kw / 1000) + volume / kw_c_rs kw + kw_peep kw"
  using assms
  by (cases "phase self")
     (auto simp: simulation_model_def init_Ventilator_eq phase_equations_def
        exhale_branch_def inhale_branch_def pause_branch_def expiratory_flow_def
        init_Lung_def Let_def
        split: if_splits sum.splits prod.splits)

theorem C9_observation_boundary_witness:
  "\<exists>flow volume pressure.
     simulation_model \<lparr> sim_i = 2, phase_counter = 1, phase = inhale, start_phase_time = 0 \<rparr>
         0 0 10 5 kwargs_1Hz
       = (\<lparr> sim_i = 3, phase_counter = 1, phase = pause, start_phase_time = 0 \<rparr>,
          Inr [(''x1'', flow * 60 / 1000), (''x2'', volume), (''x3'', pressure)])
     \<and> flow = 350 \<and> flow * 60 / 1000 = 21 \<and> volume = 10 + flow * 1
     \<and> pressure = flow * (3 / 1000) + volume / 60 + 5"
  using C9_observation_boundary [OF tick_1Hz_third] tick_1Hz_third
  by auto

section \<open>Properties of the tuners\<close>

lemma reaction_curve_finite_together:
  "reaction_curve lib plant = Inr (L, T) \<Longrightarrow> (L = None) = (T = None)"
  by (auto simp: reaction_curve_def f64_sub_def f64_add_def f64_div_def Let_def
      split: prod.splits list.splits sum.splits if_splits)

lemma sample_reaction_curve:
  "reaction_curve sample_libraries () = Inr (Some (1 / 2), Some 4)"
  by (simp add: reaction_curve_def np_where_def np_diff_def np_sign_def item_def
        f64_sub_def f64_add_def f64_div_def Let_def)

lemma zn_gains_P:
  "l \<noteq> 0 \<Longrightarrow> zn_gains ''P'' (Some l) (Some t) = Inr (Some (t / l), Some 0, Some 0)"
  by (simp add: zn_gains_def f64_div_def)

lemma zn_gains_PI:
  "l \<noteq> 0 \<Longrightarrow> zn_gains ''PI'' (Some l) (Some t)
     = Inr (Some (9 / 10 * (t / l)), Some (l / (3 / 10)), Some 0)"
  by (simp add: zn_gains_def f64_div_def f64_mul_def)

lemma zn_gains_PID:
  "l \<noteq> 0 \<Longrightarrow> zn_gains ''PID'' (Some l) (Some t)
     = Inr (Some (12 / 10 * (t / l)), Some (2 * l), Some (1 / 2 * l))"
  by (simp add: zn_gains_def f64_div_def f64_mul_def)

lemma zn_gains_invalid:
  "pid_type \<noteq> ''P'' \<Longrightarrow> pid_type \<noteq> ''PI'' \<Longrightarrow> pid_type \<noteq> ''PID'' \<Longrightarrow>
   zn_gains pid_type L T = Inl ValueError"
  by (simp add: zn_gains_def)

lemma zn_gains_valid:
  "pid_type = ''P'' \<or> pid_type = ''PI'' \<or> pid_type = ''PID'' \<Longrightarrow>
   \<exists>gains. zn_gains pid_type L T = Inr gains"
  by (auto simp: zn_gains_def)

lemma ZN_without_plot:
  "reaction_curve lib plant = Inr (L, T) \<Longrightarrow>
   train_pid_with_ZN_method lib plant pid_type False = zn_gains pid_type L T"
  by (simp add: train_pid_with_ZN_method_def split: sum.splits)

lemma ZN_with_plot_never_returns:
  "train_pid_with_ZN_method lib plant pid_type True \<noteq> Inr gains"
  by (simp add: train_pid_with_ZN_method_def split: sum.splits prod.splits)

lemma ZN_with_plot_exits:
  "reaction_curve lib plant = Inr (L, T) \<Longrightarrow>
   pid_type = ''P'' \<or> pid_type = ''PI'' \<or> pid_type = ''PID'' \<Longrightarrow>
   train_pid_with_ZN_method lib plant pid_type True = Inl SystemExit"
  using zn_gains_valid [of pid_type L T]
  by (auto simp: train_pid_with_ZN_method_def)

lemma ZN_invalid_family:
  "reaction_curve lib plant = Inr (L, T) \<Longrightarrow>
   pid_type \<noteq> ''P'' \<Longrightarrow> pid_type \<noteq> ''PI'' \<Longrightarrow> pid_type \<noteq> ''PID'' \<Longrightarrow>
   train_pid_with_ZN_method lib plant pid_type plot = Inl ValueError"
  by (simp add: train_pid_with_ZN_method_def zn_gains_invalid)

lemma ZN_gain_table_without_plot:
  assumes "reaction_curve lib plant = Inr (Some l, Some t)" and "l \<noteq> 0"
  shows "train_pid_with_ZN_method lib plant ''P'' False
           = Inr (Some (t / l), Some 0, Some 0)
         \<and> train_pid_with_ZN_method lib plant ''PI'' False
           = Inr (Some (9 / 10 * (t / l)), Some (l / (3 / 10)), Some 0)
         \<and> train_pid_with_ZN_method lib plant ''PID'' False
           = Inr (Some (12 / 10 * (t / l)), Some (2 * l), Some (1 / 2 * l))"
  using ZN_without_plot [OF assms(1)] zn_gains_P [OF assms(2)] zn_gains_PI [OF assms(2)]
    zn_gains_PID [OF assms(2)]
  by simp

text \<open>
  C4 (evaluation of the code). For the sample plant the tangent analysis gives
  \<open>L = 1/2\<close> and \<open>T = 4\<close>, and the gain table computes \<open>(T / L, 0, 0)\<close> for P,
  \<open>(0.9 * (T / L), L / 0.3, 0)\<close> for PI and \<open>(1.2 * (T / L), 2 * L, 0.5 * L)\<close> for PID.
  With \<open>plot\<close> at its default \<open>True\<close> the tuner returns none of them: the plotting
  branch ends in \<open>exit()\<close>. With \<open>plot\<close> false it returns exactly these triples.
\<close>

theorem C4_default_flag_returns_no_gains:
  "reaction_curve sample_libraries () = Inr (Some (1 / 2), Some 4)
   \<and> zn_gains ''P'' (Some (1 / 2)) (Some 4) = Inr (Some (4 / (1 / 2)), Some 0, Some 0)
   \<and> zn_gains ''PI'' (Some (1 / 2)) (Some 4)
       = Inr (Some (9 / 10 * (4 / (1 / 2))), Some ((1 / 2) / (3 / 10)), Some 0)
   \<and> zn_gains ''PID'' (Some (1 / 2)) (Some 4)
       = Inr (Some (12 / 10 * (4 / (1 / 2))), Some (2 * (1 / 2)), Some (1 / 2 * (1 / 2)))
   \<and> train_pid_with_ZN_method sample_libraries () ''P'' True = Inl SystemExit
   \<and> train_pid_with_ZN_method sample_libraries () ''PI'' True = Inl SystemExit
   \<and> train_pid_with_ZN_method sample_libraries () ''PID'' True = Inl SystemExit
   \<and> train_pid_with_ZN_method sample_libraries () ''P'' False
       = Inr (Some (4 / (1 / 2)), Some 0, Some 0)
   \<and> train_pid_with_ZN_method sample_libraries () ''PI'' False
       = Inr (Some (9 / 10 * (4 / (1 / 2))), Some ((1 / 2) / (3 / 10)), Some 0)
   \<and> train_pid_with_ZN_method sample_libraries () ''PID'' False
       = Inr (Some (12 / 10 * (4 / (1 / 2))), Some (2 * (1 / 2)), Some (1 / 2 * (1 / 2)))"
proof -
  have nz: "(1 / 2 :: real) \<noteq> 0" by simp
  note g = zn_gains_P [OF nz, of 4] zn_gains_PI [OF nz, of 4] zn_gains_PID [OF nz, of 4]
  have x: "train_pid_with_ZN_method sample_libraries () pid_type True = Inl SystemExit"
    if "pid_type = ''P'' \<or> pid_type = ''PI'' \<or> pid_type = ''PID''" for pid_type
    using ZN_with_plot_exits [OF sample_reaction_curve that] .
  have "train_pid_with_ZN_method sample_libraries () ''P'' True = Inl SystemExit"
    and "train_pid_with_ZN_method sample_libraries () ''PI'' True = Inl SystemExit"
    and "train_pid_with_ZN_method sample_libraries () ''PID'' True = Inl SystemExit"
    by (simp_all add: x)
  moreover have "train_pid_with_ZN_method sample_libraries () ''P'' False
       = Inr (Some (4 / (1 / 2)), Some 0, Some 0)"
    and "train_pid_with_ZN_method sample_libraries () ''PI'' False
       = Inr (Some (9 / 10 * (4 / (1 / 2))), Some ((1 / 2) / (3 / 10)), Some 0)"
    and "train_pid_with_ZN_method sample_libraries () ''PID'' False
       = Inr (Some (12 / 10 * (4 / (1 / 2))), Some (2 * (1 / 2)), Some (1 / 2 * (1 / 2)))"
    using ZN_without_plot [OF sample_reaction_curve] g by simp_all
  ultimately show ?thesis
    using sample_reaction_curve g by simp
qed

text \<open>
  C5 (evaluation of the code). For the sample plant and the family PI the tuner returns
  the gains \<open>(7.2, 5/3, 0)\<close> with \<open>plot\<close> false, and with \<open>plot\<close> true it returns
  nothing: the plotting branch ends in \<open>exit()\<close>.
\<close>

theorem C5_plot_flag_changes_outcome:
  "train_pid_with_ZN_method sample_libraries () ''PI'' False
     = Inr (Some (36 / 5), Some (5 / 3), Some 0)
   \<and> train_pid_with_ZN_method sample_libraries () ''PI'' True = Inl SystemExit"
proof -
  have nz: "(1 / 2 :: real) \<noteq> 0" by simp
  have "train_pid_with_ZN_method sample_libraries () ''PI'' False
     = Inr (Some (36 / 5), Some (5 / 3), Some 0)"
    using ZN_without_plot [OF sample_reaction_curve, of "''PI''"] zn_gains_PI [OF nz, of 4]
    by simp
  moreover have "train_pid_with_ZN_method sample_libraries () ''PI'' True = Inl SystemExit"
    by (rule ZN_with_plot_exits [OF sample_reaction_curve]) simp
  ultimately show ?thesis by blast
qed

text \<open>
  C8 (evaluation of the code). With the family string \<open>XYZ\<close> the optimisation tuner
  (method \<open>BFGS\<close>) returns a controller and its gains, while the Ziegler-Nichols
  tuner raises \<open>ValueError\<close>, with either value of \<open>plot\<close> and also through the
  entry point.
\<close>

theorem C8_optimization_tuner_accepts_any_family:
  "map_sum id snd
     (train_pid_controller sample_libraries () ''BFGS'' ''XYZ'' (Some 0) (Some 0) (Some 0))
     = Inr [(''optimized_Kp'', Some 0), (''optimized_Ki'', Some 0), (''optimized_Kd'', Some 0)]
   \<and> train_pid_with_ZN_method sample_libraries () ''XYZ'' False = Inl ValueError
   \<and> train_pid_with_ZN_method sample_libraries () ''XYZ'' True = Inl ValueError
   \<and> train_pid_controller sample_libraries () ''ZN'' ''XYZ'' (Some 0) (Some 0) (Some 0)
       = Inl ValueError"
proof -
  have "map_sum id snd
     (train_pid_controller sample_libraries () ''BFGS'' ''XYZ'' (Some 0) (Some 0) (Some 0))
     = Inr [(''optimized_Kp'', Some 0), (''optimized_Ki'', Some 0), (''optimized_Kd'', Some 0)]"
    by (simp add: train_pid_controller_def Let_def)
  moreover have z: "train_pid_with_ZN_method sample_libraries () ''XYZ'' plot = Inl ValueError"
    for plot
    by (rule ZN_invalid_family [OF sample_reaction_curve]) simp_all
  moreover have "train_pid_controller sample_libraries () ''ZN'' ''XYZ'' (Some 0) (Some 0) (Some 0)
       = Inl ValueError"
    by (simp add: train_pid_controller_def z)
  ultimately show ?thesis by blast
qed

lemma optimization_tuner_ignores_family:
  "pid_training_method \<noteq> ''ZN'' \<Longrightarrow>
   train_pid_controller lib plant pid_training_method pid_type a b c
     = train_pid_controller lib plant pid_training_method pid_type' a b c"
  by (simp add: train_pid_controller_def)

text \<open>
  C10. For every plant, family and initial guess, \<open>train_pid_controller\<close> with the
  method \<open>ZN\<close> raises and returns no controller. When the family is one of P, PI,
  PID and the tangent analysis yields \<open>(L, T)\<close>, what it raises is the \<open>SystemExit\<close>
  of the plotting branch, taken because the call leaves \<open>plot\<close> at its default.
\<close>

theorem C10_ZN_entry_never_returns:
  "(\<exists>err. train_pid_controller lib plant ''ZN'' pid_type a b c = Inl err)
   \<and> ((pid_type = ''P'' \<or> pid_type = ''PI'' \<or> pid_type = ''PID'')
        \<and> reaction_curve lib plant = Inr (L, T)
       \<longrightarrow> train_pid_controller lib plant ''ZN'' pid_type a b c = Inl SystemExit)"
proof (intro conjI impI)
  show "\<exists>err. train_pid_controller lib plant ''ZN'' pid_type a b c = Inl err"
  proof (cases "train_pid_with_ZN_method lib plant pid_type True")
    case (Inl err)
    then show ?thesis by (simp add: train_pid_controller_def)
  next
    case (Inr gains)
    with ZN_with_plot_never_returns [of lib plant pid_type gains] show ?thesis by simp
  qed
next
  assume "(pid_type = ''P'' \<or> pid_type = ''PI'' \<or> pid_type = ''PID'')
          \<and> reaction_curve lib plant = Inr (L, T)"
  then have "train_pid_with_ZN_method lib plant pid_type True = Inl SystemExit"
    using ZN_with_plot_exits [of lib plant L T pid_type] by blast
  then show "train_pid_controller lib plant ''ZN'' pid_type a b c = Inl SystemExit"
    by (simp add: train_pid_controller_def)
qed

theorem C10_ZN_entry_never_returns_witness:
  "reaction_curve sample_libraries () = Inr (Some (1 / 2), Some 4)
   \<and> train_pid_controller sample_libraries () ''ZN'' ''PI'' (Some 0) (Some 0) (Some 0)
       = Inl SystemExit"
  using C10_ZN_entry_never_returns
          [of sample_libraries "()" "''PI''" "Some 0" "Some 0" "Some 0" "Some (1 / 2)" "Some 4"]
        sample_reaction_curve
  by simp

end
